theory Spec2Isabelle
  imports Main "HOL-Library.Word" "HOL-Library.Sublist"
begin

section \<open>JavaScript values\<close>

text \<open>
  A JavaScript string is a sequence of UTF-16 code units: \<open>length\<close>, \<open>substring\<close>,
  \<open>split\<close> and \<open>trim\<close> all count code units. \<open>js\<close> embeds an ASCII literal.
\<close>

type_synonym jsstring = "16 word list"

definition js :: "string \<Rightarrow> jsstring" where
  "js s = map of_char s"

definition comma :: "16 word" where
  "comma = 0x2C"

definition dquote :: jsstring where
  "dquote = [0x22]"

text \<open>\<open>String(n)\<close> for a non-negative integer: its decimal digits.\<close>

fun number_toString :: "nat \<Rightarrow> jsstring" where
  "number_toString n =
     (if n < 10 then [of_nat (48 + n)]
      else number_toString (n div 10) @ [of_nat (48 + n mod 10)])"

text \<open>
  \<open>s.split(',')\<close>: the segments between the separators; a string without a separator
  is one segment, the empty string included.
\<close>

fun split_js :: "16 word \<Rightarrow> jsstring \<Rightarrow> jsstring list" where
  "split_js sep [] = [[]]"
| "split_js sep (c # cs) =
     (if c = sep then [] # split_js sep cs
      else (case split_js sep cs of
              [] \<Rightarrow> [[c]]
            | seg # segs \<Rightarrow> (c # seg) # segs))"

text \<open>
  \<open>s.trim()\<close> strips ECMAScript white space and line terminators from both ends.
\<close>

definition is_js_space :: "16 word \<Rightarrow> bool" where
  "is_js_space c =
     (c \<in> set [0x09, 0x0A, 0x0B, 0x0C, 0x0D, 0x20, 0xA0, 0x1680, 0x2028, 0x2029,
                0x202F, 0x205F, 0x3000, 0xFEFF]
      \<or> (0x2000 \<le> c \<and> c \<le> 0x200A))"

definition trim :: "jsstring \<Rightarrow> jsstring" where
  "trim s = rev (dropWhile is_js_space (rev (dropWhile is_js_space s)))"

text \<open>
  An object literal is the ordered list of the properties it ends up with; a property
  that a conditional spread leaves out is not in the list at all.
\<close>

datatype jsval =
    JString jsstring
  | JNumber nat
  | JObject "(string \<times> jsval) list"

datatype exn =
    Error jsstring
  | TypeError jsstring
  | URIError jsstring

text \<open>What a template literal prints for a string that may be \<open>undefined\<close>.\<close>

definition interpolate :: "jsstring option \<Rightarrow> jsstring" where
  "interpolate v = (case v of None \<Rightarrow> js ''undefined'' | Some s \<Rightarrow> s)"

section \<open>The generative service and the browser\<close>

datatype aspect_ratio = Landscape_16_9 | Portrait_9_16

fun aspect_text :: "aspect_ratio \<Rightarrow> jsstring" where
  "aspect_text Landscape_16_9 = js ''16:9''"
| "aspect_text Portrait_9_16 = js ''9:16''"

record image_arg =
  base64 :: jsstring
  mimeType :: jsstring

record VideoRef =
  uri :: "jsstring option"

record GeneratedVideo =
  video :: "VideoRef option"

record GenerateVideosResponse =
  generatedVideos :: "GeneratedVideo list option"

text \<open>\<open>done\<close> is optional in the SDK's operation type; \<open>!operation.done\<close> holds for
  \<open>undefined\<close> and for \<open>false\<close>.\<close>

record GenerateVideosOperation =
  done_flag :: "bool option"
  response :: "GenerateVideosResponse option"

record Blob =
  blob_type :: jsstring
  blob_bytes :: "8 word list"

record Response =
  ok :: bool
  status :: nat
  statusText :: jsstring
  blob :: "exn + Blob"

text \<open>
  Everything outside the repository is a parameter: the service's replies to the
  submission and to the \<open>n\<close>-th status query, the reply to the fetch issued for the
  \<open>i\<close>-th asset and the moment that asset's task settles, the builtins
  \<open>decodeURIComponent\<close> and \<open>FileReader.readAsDataURL\<close>, the credential the
  template literal prints, and the identifier the next \<open>randomUUID()\<close> returns.
\<close>

record world =
  API_KEY :: jsstring
  generateVideos :: "jsval \<Rightarrow> exn + GenerateVideosOperation"
  getVideosOperation :: "nat \<Rightarrow> GenerateVideosOperation \<Rightarrow> exn + GenerateVideosOperation"
  decodeURIComponent :: "jsstring \<Rightarrow> exn + jsstring"
  fetch :: "nat \<Rightarrow> jsstring \<Rightarrow> exn + Response"
  settle_time :: "nat \<Rightarrow> nat"
  readAsDataURL :: "Blob \<Rightarrow> jsstring"
  randomUUID :: jsstring

text \<open>The calls that leave the program, in the order they are issued.\<close>

datatype event =
    GenerateVideos jsval
  | GetVideosOperation GenerateVideosOperation
  | Fetch jsstring

section \<open>generateVideo\<close>

definition VEO_MODEL_NAME :: jsstring where
  "VEO_MODEL_NAME = js ''veo-2.0-generate-001''"

text \<open>\<open>bloblToBase64\<close>: the second comma-separated segment of the data URL the reader
  produced, \<open>undefined\<close> when there is none.\<close>

definition bloblToBase64 :: "world \<Rightarrow> Blob \<Rightarrow> jsstring option" where
  "bloblToBase64 w b =
     (case split_js comma (readAsDataURL w b) of
        _ # payload # _ \<Rightarrow> Some payload
      | _ \<Rightarrow> None)"

text \<open>The argument of \<open>ai.models.generateVideos\<close>.\<close>

definition generateVideos_params ::
  "jsstring \<Rightarrow> aspect_ratio \<Rightarrow> image_arg option \<Rightarrow> nat \<Rightarrow> jsval" where
  "generateVideos_params prompt aspectRatio image_opt numberOfVideos =
     JObject
       ([(''model'', JString VEO_MODEL_NAME),
         (''prompt'', JString prompt)]
        @ (case image_opt of
             None \<Rightarrow> []
           | Some im \<Rightarrow>
               [(''image'', JObject [(''imageBytes'', JString (base64 im)),
                                     (''mimeType'', JString (mimeType im))])])
        @ [(''config'', JObject [(''numberOfVideos'', JNumber numberOfVideos),
                                 (''aspectRatio'', JString (aspect_text aspectRatio))])])"

definition is_done :: "GenerateVideosOperation \<Rightarrow> bool" where
  "is_done operation = (done_flag operation = Some True)"

text \<open>
  The polling loop. \<open>asked\<close> holds the operations already passed to a status query, so
  its length numbers the next query. The loop has no bound: it returns \<open>None\<close> when the
  service never reports \<open>done\<close>.
\<close>

partial_function (option) poll ::
  "world \<Rightarrow> GenerateVideosOperation list \<Rightarrow> GenerateVideosOperation
     \<Rightarrow> (GenerateVideosOperation list \<times> (exn + GenerateVideosOperation)) option" where
  "poll w asked operation =
     (if is_done operation then Some (asked, Inr operation)
      else (case getVideosOperation w (length asked) operation of
              Inl e \<Rightarrow> Some (asked @ [operation], Inl e)
            | Inr operation' \<Rightarrow> poll w (asked @ [operation]) operation'))"

declare poll.simps [code]

text \<open>
  One element of \<open>videos.map(async ...)\<close>. Each task runs up to its \<open>await fetch\<close>
  when \<open>map\<close> calls it, so the fetch of every asset whose URL resolves is issued.
\<close>

definition fetch_failed :: "Response \<Rightarrow> exn" where
  "fetch_failed res =
     Error (js ''Failed to fetch video: '' @ number_toString (status res)
            @ js '' '' @ statusText res)"

definition fetch_task ::
  "world \<Rightarrow> nat \<Rightarrow> GeneratedVideo \<Rightarrow> event list \<times> (exn + jsstring option)" where
  "fetch_task w i generatedVideo =
     (case video generatedVideo of
        None \<Rightarrow> ([], Inl (TypeError (js ''Cannot read properties of undefined'')))
      | Some v \<Rightarrow>
          (case decodeURIComponent w (interpolate (uri v)) of
             Inl e \<Rightarrow> ([], Inl e)
           | Inr url \<Rightarrow>
               (let target = url @ js ''&key='' @ API_KEY w in
                ([Fetch target],
                 (case fetch w i target of
                    Inl e \<Rightarrow> Inl e
                  | Inr res \<Rightarrow>
                      if \<not> ok res then Inl (fetch_failed res)
                      else (case blob res of
                              Inl e \<Rightarrow> Inl e
                            | Inr b \<Rightarrow> Inr (bloblToBase64 w b)))))))"

fun fetch_tasks ::
  "world \<Rightarrow> nat \<Rightarrow> GeneratedVideo list \<Rightarrow> (event list \<times> (exn + jsstring option)) list" where
  "fetch_tasks w i [] = []"
| "fetch_tasks w i (g # gs) = fetch_task w i g # fetch_tasks w (Suc i) gs"

text \<open>
  \<open>Promise.all\<close>: the values in order when every task fulfils, otherwise the reason of
  the rejected task that settles first (the lower index on equal times).
\<close>

fun rejections :: "nat \<Rightarrow> (exn + 'a) list \<Rightarrow> (nat \<times> exn) list" where
  "rejections i [] = []"
| "rejections i (Inl e # rs) = (i, e) # rejections (Suc i) rs"
| "rejections i (Inr v # rs) = rejections (Suc i) rs"

fun first_rejection :: "(nat \<Rightarrow> nat) \<Rightarrow> (nat \<times> exn) list \<Rightarrow> (nat \<times> exn) option" where
  "first_rejection t [] = None"
| "first_rejection t ((i, e) # rest) =
     (case first_rejection t rest of
        None \<Rightarrow> Some (i, e)
      | Some (j, e') \<Rightarrow> if t i \<le> t j then Some (i, e) else Some (j, e'))"

fun fulfilled :: "(exn + 'a) list \<Rightarrow> 'a list" where
  "fulfilled [] = []"
| "fulfilled (Inl e # rs) = fulfilled rs"
| "fulfilled (Inr v # rs) = v # fulfilled rs"

definition Promise_all :: "(nat \<Rightarrow> nat) \<Rightarrow> (exn + 'a) list \<Rightarrow> exn + 'a list" where
  "Promise_all t results =
     (case first_rejection t (rejections 0 results) of
        Some (i, e) \<Rightarrow> Inl e
      | None \<Rightarrow> Inr (fulfilled results))"

definition materialize ::
  "world \<Rightarrow> GeneratedVideo list \<Rightarrow> event list \<times> (exn + jsstring option list)" where
  "materialize w videos_list =
     (let tasks = fetch_tasks w 0 videos_list in
      (concat (map fst tasks), Promise_all (settle_time w) (map snd tasks)))"

definition no_videos_generated :: exn where
  "no_videos_generated = Error (js ''No videos generated'')"

definition generateVideo ::
  "world \<Rightarrow> jsstring \<Rightarrow> aspect_ratio \<Rightarrow> image_arg option \<Rightarrow> nat
     \<Rightarrow> (event list \<times> (exn + jsstring option list)) option" where
  "generateVideo w prompt aspectRatio image_opt numberOfVideos =
     (let params = generateVideos_params prompt aspectRatio image_opt numberOfVideos in
      case generateVideos w params of
        Inl e \<Rightarrow> Some ([GenerateVideos params], Inl e)
      | Inr submitted \<Rightarrow>
          (case poll w [] submitted of
             None \<Rightarrow> None
           | Some (asked, polled) \<Rightarrow>
               (let log = GenerateVideos params # map GetVideosOperation asked in
                case polled of
                  Inl e \<Rightarrow> Some (log, Inl e)
                | Inr operation \<Rightarrow>
                    (case response operation of
                       None \<Rightarrow> Some (log, Inl no_videos_generated)
                     | Some resp \<Rightarrow>
                         (case generatedVideos resp of
                            None \<Rightarrow> Some (log, Inl no_videos_generated)
                          | Some [] \<Rightarrow> Some (log, Inl no_videos_generated)
                          | Some (g # gs) \<Rightarrow>
                              (let (fetches, result) = materialize w (g # gs)
                               in Some (log @ fetches, result)))))))"

section \<open>The App component\<close>

record Video =
  video_id :: jsstring
  title :: jsstring
  description :: jsstring
  videoUrl :: jsstring

record app_state =
  videos :: "Video list"
  playingVideo :: "Video option"
  editingVideo :: "Video option"
  isGeneratingNewVideo :: bool
  isSaving :: bool
  savingMessage :: jsstring
  generationError :: "jsstring list option"

definition initial_state :: app_state where
  "initial_state =
     \<lparr>videos = [], playingVideo = None, editingVideo = None,
      isGeneratingNewVideo = False, isSaving = False,
      savingMessage = js ''Creating your video...'', generationError = None\<rparr>"

text \<open>What the component renders: one primary page, and the overlays, which the
  progress page hides.\<close>

datatype page = Grid | GenerateForm | EditForm | SavingProgress

definition primary_page :: "app_state \<Rightarrow> page" where
  "primary_page s =
     (if isSaving s then SavingProgress
      else if isGeneratingNewVideo s then GenerateForm
      else if editingVideo s \<noteq> None then EditForm
      else Grid)"

definition player_overlay :: "app_state \<Rightarrow> Video option" where
  "player_overlay s = (if isSaving s then None else playingVideo s)"

definition error_overlay :: "app_state \<Rightarrow> jsstring list option" where
  "error_overlay s = (if isSaving s then None else generationError s)"

definition handleStartEdit :: "app_state \<Rightarrow> Video \<Rightarrow> app_state" where
  "handleStartEdit s v = s\<lparr>playingVideo := None, editingVideo := Some v\<rparr>"

definition handleStartGenerate :: "app_state \<Rightarrow> app_state" where
  "handleStartGenerate s =
     s\<lparr>playingVideo := None, editingVideo := None, isGeneratingNewVideo := True\<rparr>"

text \<open>The \<open>onClose\<close> handler of the error modal.\<close>

definition ErrorModal_onClose :: "app_state \<Rightarrow> app_state" where
  "ErrorModal_onClose s = s\<lparr>generationError := None\<rparr>"

definition generation_failed_message :: "jsstring list" where
  "generation_failed_message =
     [js ''Video generation failed.'',
      js ''This may be due to a billing issue. Please ensure your Cloud Project is on a paid tier to use this feature.'']"

text \<open>The \<open>catch\<close> block, shared by both handlers: whatever was thrown, the same
  message is stored.\<close>

definition catch_block :: "exn \<Rightarrow> app_state \<Rightarrow> app_state" where
  "catch_block error s = s\<lparr>generationError := Some generation_failed_message\<rparr>"

definition finally_block :: "app_state \<Rightarrow> app_state" where
  "finally_block s = s\<lparr>isSaving := False\<rparr>"

definition no_data :: exn where
  "no_data = Error (js ''Video generation returned no data.'')"

definition data_url :: "jsstring option \<Rightarrow> jsstring" where
  "data_url videoSrc = js ''data:'' @ js ''video/mp4'' @ js '';base64,'' @ interpolate videoSrc"

definition generated_title :: "jsstring \<Rightarrow> jsstring" where
  "generated_title prompt =
     js ''Generated: '' @ take 30 prompt @ (if length prompt > 30 then js ''...'' else [])"

definition remix_title :: "Video \<Rightarrow> jsstring" where
  "remix_title originalVideo = js ''Remix of '' @ dquote @ title originalVideo @ dquote"

text \<open>The state while the pipeline runs (the four setters before \<open>try\<close>).\<close>

definition begin_generate :: "app_state \<Rightarrow> app_state" where
  "begin_generate s =
     s\<lparr>isGeneratingNewVideo := False, savingMessage := js ''Creating your video...'',
       isSaving := True, generationError := None\<rparr>"

definition begin_remix :: "app_state \<Rightarrow> app_state" where
  "begin_remix s =
     s\<lparr>editingVideo := None, savingMessage := js ''Creating your remix...'',
       isSaving := True, generationError := None\<rparr>"

text \<open>The rest of a \<open>try\<close> body once \<open>generateVideo\<close> has settled: the result or the
  exception, and the state with the new video committed.\<close>

definition commit_video ::
  "world \<Rightarrow> jsstring \<Rightarrow> jsstring \<Rightarrow> app_state \<Rightarrow> exn + jsstring option list
     \<Rightarrow> exn + app_state" where
  "commit_video w new_title new_description s outcome =
     (case outcome of
        Inl e \<Rightarrow> Inl e
      | Inr [] \<Rightarrow> Inl no_data
      | Inr (videoSrc # _) \<Rightarrow>
          (let newVideo = \<lparr>video_id = randomUUID w, title = new_title,
                           description = new_description, videoUrl = data_url videoSrc\<rparr>
           in Inr (s\<lparr>videos := newVideo # videos s, playingVideo := Some newVideo\<rparr>)))"

definition try_catch_finally :: "app_state \<Rightarrow> exn + app_state \<Rightarrow> app_state" where
  "try_catch_finally s body =
     finally_block (case body of Inl error \<Rightarrow> catch_block error s | Inr s' \<Rightarrow> s')"

definition handleGenerateNewVideo ::
  "world \<Rightarrow> app_state \<Rightarrow> jsstring \<Rightarrow> aspect_ratio \<Rightarrow> image_arg option
     \<Rightarrow> (event list \<times> app_state) option" where
  "handleGenerateNewVideo w s prompt aspectRatio image_opt =
     (let s1 = begin_generate s in
      case generateVideo w prompt aspectRatio image_opt 1 of
        None \<Rightarrow> None
      | Some (log, videoObjects) \<Rightarrow>
          Some (log, try_catch_finally s1
                       (commit_video w (generated_title prompt) prompt s1 videoObjects)))"

definition handleSaveEdit ::
  "world \<Rightarrow> app_state \<Rightarrow> Video \<Rightarrow> (event list \<times> app_state) option" where
  "handleSaveEdit w s originalVideo =
     (let s1 = begin_remix s;
          promptText = description originalVideo in
      case generateVideo w promptText Landscape_16_9 None 1 of
        None \<Rightarrow> None
      | Some (log, videoObjects) \<Rightarrow>
          Some (log, try_catch_finally s1
                       (commit_video w (remix_title originalVideo)
                          (description originalVideo) s1 videoObjects)))"

section \<open>The GenerateVideoPage component\<close>

record form_image =
  form_base64 :: jsstring
  form_mimeType :: jsstring
  dataUrl :: jsstring

record form_state =
  form_prompt :: jsstring
  form_aspectRatio :: aspect_ratio
  form_image_opt :: "form_image option"

text \<open>\<open>handleGenerate\<close> calls \<open>onGenerate\<close> (the App's \<open>handleGenerateNewVideo\<close>) only
  when the trimmed prompt is a non-empty string; otherwise it does nothing.\<close>

definition handleGenerate ::
  "world \<Rightarrow> app_state \<Rightarrow> form_state \<Rightarrow> (event list \<times> app_state) option" where
  "handleGenerate w s form =
     (if trim (form_prompt form) \<noteq> []
      then handleGenerateNewVideo w s (form_prompt form) (form_aspectRatio form)
             (case form_image_opt form of
                None \<Rightarrow> None
              | Some im \<Rightarrow> Some \<lparr>base64 = form_base64 im, mimeType = form_mimeType im\<rparr>)
      else Some ([], s))"

section \<open>Notions used in the statements\<close>

text \<open>
  \<open>settles_within w k n operation\<close>: started on \<open>operation\<close> with status query number
  \<open>n\<close> next, the service reports \<open>done\<close>, or a query fails, within \<open>k\<close> queries.
\<close>

fun settles_within :: "world \<Rightarrow> nat \<Rightarrow> nat \<Rightarrow> GenerateVideosOperation \<Rightarrow> bool" where
  "settles_within w 0 n operation = is_done operation"
| "settles_within w (Suc k) n operation =
     (is_done operation \<or>
      (case getVideosOperation w n operation of
         Inl e \<Rightarrow> True
       | Inr operation' \<Rightarrow> settles_within w k (Suc n) operation'))"

text \<open>
  \<open>queried w n qs outcome\<close>: the operations \<open>qs\<close> were passed to the status queries
  \<open>n\<close>, \<open>n + 1\<close>, ... in this order, none of them was done, each reply but the last was
  the next operation queried, and the last reply is \<open>outcome\<close>.
\<close>

fun queried ::
  "world \<Rightarrow> nat \<Rightarrow> GenerateVideosOperation list \<Rightarrow> exn + GenerateVideosOperation \<Rightarrow> bool" where
  "queried w n [] outcome = True"
| "queried w n [q] outcome = (\<not> is_done q \<and> getVideosOperation w n q = outcome)"
| "queried w n (q # q' # qs) outcome =
     (\<not> is_done q \<and> getVideosOperation w n q = Inr q' \<and> queried w (Suc n) (q' # qs) outcome)"

definition settled :: "exn + GenerateVideosOperation \<Rightarrow> bool" where
  "settled outcome = (case outcome of Inl e \<Rightarrow> True | Inr operation \<Rightarrow> is_done operation)"

definition poll_post ::
  "world \<Rightarrow> nat \<Rightarrow> GenerateVideosOperation \<Rightarrow> GenerateVideosOperation list
     \<Rightarrow> exn + GenerateVideosOperation \<Rightarrow> bool" where
  "poll_post w n operation qs outcome =
     (queried w n qs outcome
      \<and> (if is_done operation then qs = [] \<and> outcome = Inr operation
         else qs \<noteq> [] \<and> hd qs = operation)
      \<and> settled outcome)"

text \<open>\<open>operation.response?.generatedVideos\<close>, with \<open>undefined\<close> read as no asset.\<close>

definition generatedVideos_of :: "GenerateVideosOperation \<Rightarrow> GeneratedVideo list" where
  "generatedVideos_of operation =
     (case response operation of
        None \<Rightarrow> []
      | Some resp \<Rightarrow> (case generatedVideos resp of None \<Rightarrow> [] | Some gs \<Rightarrow> gs))"

definition properties :: "jsval \<Rightarrow> (string \<times> jsval) list" where
  "properties v = (case v of JObject ps \<Rightarrow> ps | _ \<Rightarrow> [])"

definition is_submission :: "event \<Rightarrow> bool" where
  "is_submission ev = (case ev of GenerateVideos _ \<Rightarrow> True | _ \<Rightarrow> False)"

definition is_status_query :: "event \<Rightarrow> bool" where
  "is_status_query ev = (case ev of GetVideosOperation _ \<Rightarrow> True | _ \<Rightarrow> False)"

text \<open>
  A media-type-tagged embeddable string is a data URL, \<open>data:<type>;base64,<payload>\<close>:
  it starts with the scheme and has the comma that ends its header.
\<close>

definition is_data_url :: "jsstring \<Rightarrow> bool" where
  "is_data_url s = (prefix (js ''data:'') s \<and> comma \<in> set s)"

section \<open>Concrete services\<close>

definition pending_operation :: GenerateVideosOperation where
  "pending_operation = \<lparr>done_flag = None, response = None\<rparr>"

definition running_operation :: GenerateVideosOperation where
  "running_operation = \<lparr>done_flag = Some False, response = None\<rparr>"

definition asset :: "jsstring \<Rightarrow> GeneratedVideo" where
  "asset u = \<lparr>video = Some \<lparr>uri = Some u\<rparr>\<rparr>"

definition finished_operation :: "GeneratedVideo list \<Rightarrow> GenerateVideosOperation" where
  "finished_operation gs =
     \<lparr>done_flag = Some True, response = Some \<lparr>generatedVideos = Some gs\<rparr>\<rparr>"

definition ok_response :: "nat \<Rightarrow> Response" where
  "ok_response i =
     \<lparr>ok = True, status = 200, statusText = js ''OK'',
      blob = Inr \<lparr>blob_type = js ''video/mp4'', blob_bytes = [of_nat i]\<rparr>\<rparr>"

definition forbidden_response :: Response where
  "forbidden_response =
     \<lparr>ok = False, status = 403, statusText = js ''Forbidden'',
      blob = Inr \<lparr>blob_type = js ''text/plain'', blob_bytes = []\<rparr>\<rparr>"

text \<open>
  A test service: \<open>submit\<close> answers the submission; the first status query is answered
  with a running operation and every later one with a finished operation holding the
  assets \<open>gs\<close>; the fetch for asset \<open>i\<close> is answered with \<open>serve i\<close>; the tasks settle
  in index order; the reader encodes the bytes \<open>[0]\<close> as \<open>AA==\<close> and any other file as
  \<open>AQ==\<close>.
\<close>

definition test_world ::
  "(jsval \<Rightarrow> exn + GenerateVideosOperation) \<Rightarrow> (nat \<Rightarrow> Response) \<Rightarrow> jsstring
     \<Rightarrow> GeneratedVideo list \<Rightarrow> world" where
  "test_world submit serve uuid gs =
     \<lparr>API_KEY = js ''K'',
      generateVideos = submit,
      getVideosOperation =
        (\<lambda>n operation. if n = 0 then Inr running_operation else Inr (finished_operation gs)),
      decodeURIComponent = Inr,
      fetch = (\<lambda>i url. Inr (serve i)),
      settle_time = (\<lambda>i. i),
      readAsDataURL =
        (\<lambda>b. js ''data:'' @ blob_type b @ js '';base64,''
              @ (if blob_bytes b = [0] then js ''AA=='' else js ''AQ=='')),
      randomUUID = uuid\<rparr>"

text \<open>The service that accepts the submission and serves every asset.\<close>

definition demo_world :: "jsstring \<Rightarrow> GeneratedVideo list \<Rightarrow> world" where
  "demo_world uuid gs = test_world (\<lambda>params. Inr pending_operation) ok_response uuid gs"

text \<open>The same, but every fetch is answered with HTTP 403.\<close>

definition forbidden_world :: "GeneratedVideo list \<Rightarrow> world" where
  "forbidden_world gs =
     test_world (\<lambda>params. Inr pending_operation) (\<lambda>i. forbidden_response) (js ''uuid-1'') gs"

text \<open>A service that rejects the submission.\<close>

definition rejecting_world :: world where
  "rejecting_world =
     test_world (\<lambda>params. Inl (Error (js ''quota exceeded''))) ok_response (js ''uuid-1'') []"

text \<open>A service whose answer to the submission is already a finished operation.\<close>

definition ready_world :: "GeneratedVideo list \<Rightarrow> world" where
  "ready_world gs =
     test_world (\<lambda>params. Inr (finished_operation gs)) ok_response (js ''uuid-1'') gs"

definition cat_prompt :: jsstring where
  "cat_prompt = js ''A cat in a hat''"

definition cat_uri :: jsstring where
  "cat_uri = js ''https://media.example/cat?alt=media''"

definition dog_prompt :: jsstring where
  "dog_prompt = js ''A dog that surfs a very large wave at dawn''"

definition blank_prompt :: jsstring where
  "blank_prompt = js ''   ''"

definition dog_uri :: jsstring where
  "dog_uri = js ''https://media.example/dog?alt=media''"

definition cat_video :: Video where
  "cat_video =
     \<lparr>video_id = js ''uuid-0'', title = js ''Generated: A cat in a hat'',
      description = cat_prompt, videoUrl = js ''data:video/mp4;base64,AA==''\<rparr>"

definition form_open_state :: app_state where
  "form_open_state = handleStartGenerate (initial_state\<lparr>videos := [cat_video]\<rparr>)"

definition editor_open_state :: app_state where
  "editor_open_state = handleStartEdit (initial_state\<lparr>videos := [cat_video]\<rparr>) cat_video"

definition cat_image :: image_arg where
  "cat_image = \<lparr>base64 = js ''iVBORw0KGgo='', mimeType = js ''image/png''\<rparr>"

definition error_shown_state :: app_state where
  "error_shown_state =
     initial_state\<lparr>videos := [cat_video], generationError := Some generation_failed_message\<rparr>"

definition blank_form :: form_state where
  "blank_form =
     \<lparr>form_prompt = blank_prompt, form_aspectRatio = Landscape_16_9, form_image_opt = None\<rparr>"

definition cat_form :: form_state where
  "cat_form =
     \<lparr>form_prompt = cat_prompt, form_aspectRatio = Landscape_16_9, form_image_opt = None\<rparr>"

definition second_forbidden_world :: "GeneratedVideo list \<Rightarrow> world" where
  "second_forbidden_world gs =
     test_world (\<lambda>params. Inr pending_operation)
       (\<lambda>i. if i = 0 then ok_response i else forbidden_response) (js ''uuid-1'') gs"

text \<open>A reader whose data URL has a comma inside the media type.\<close>

definition codec_world :: "GeneratedVideo list \<Rightarrow> world" where
  "codec_world gs =
     (demo_world (js ''uuid-1'') gs)
       \<lparr>readAsDataURL := (\<lambda>b. js ''data:video/mp4;codecs=avc1,mp4a;base64,AAAA'')\<rparr>"

section \<open>The polling loop\<close>

lemma poll_terminates:
  "settles_within w k (length asked) operation \<Longrightarrow> \<exists>res. poll w asked operation = Some res"
proof (induction k arbitrary: asked operation)
  case 0
  then show ?case by (subst poll.simps) simp
next
  case (Suc k)
  show ?case
  proof (cases "is_done operation")
    case True
    then show ?thesis by (subst poll.simps) simp
  next
    case False
    show ?thesis
    proof (cases "getVideosOperation w (length asked) operation")
      case (Inl e)
      with False show ?thesis by (subst poll.simps) simp
    next
      case (Inr operation')
      with False Suc.prems have "settles_within w k (length (asked @ [operation])) operation'"
        by simp
      from Suc.IH [OF this] obtain res where "poll w (asked @ [operation]) operation' = Some res" ..
      with False Inr show ?thesis by (subst poll.simps) simp
    qed
  qed
qed

lemma poll_settles:
  assumes "poll w asked operation = Some res"
  shows "\<exists>k. settles_within w k (length asked) operation"
proof (rule poll.raw_induct
    [where P = "\<lambda>w asked operation res. \<exists>k. settles_within w k (length asked) operation",
      OF _ assms])
  fix poll' w asked operation res
  assume IH: "\<And>w asked operation res. poll' w asked operation = Some res
                \<Longrightarrow> \<exists>k. settles_within w k (length asked) operation"
    and eq: "(if is_done operation then Some (asked, Inr operation)
      else case getVideosOperation w (length asked) operation of
           Inl e \<Rightarrow> Some (asked @ [operation], Inl e)
           | Inr operation' \<Rightarrow> poll' w (asked @ [operation]) operation') = Some res"
  show "\<exists>k. settles_within w k (length asked) operation"
  proof (cases "is_done operation")
    case True
    then have "settles_within w 0 (length asked) operation" by simp
    then show ?thesis ..
  next
    case False
    show ?thesis
    proof (cases "getVideosOperation w (length asked) operation")
      case (Inl e)
      then have "settles_within w (Suc 0) (length asked) operation" by simp
      then show ?thesis ..
    next
      case (Inr operation')
      with False eq have "poll' w (asked @ [operation]) operation' = Some res" by simp
      from IH [OF this] obtain k
        where "settles_within w k (length (asked @ [operation])) operation'" ..
      with Inr have "settles_within w (Suc k) (length asked) operation" by simp
      then show ?thesis ..
    qed
  qed
qed

lemma poll_shape:
  assumes "poll w asked operation = Some res"
  shows "\<exists>qs. fst res = asked @ qs \<and> poll_post w (length asked) operation qs (snd res)"
proof (rule poll.raw_induct
    [where P = "\<lambda>w asked operation res.
         \<exists>qs. fst res = asked @ qs \<and> poll_post w (length asked) operation qs (snd res)",
      OF _ assms])
  fix poll' w asked operation res
  assume IH: "\<And>w asked operation res. poll' w asked operation = Some res
                \<Longrightarrow> \<exists>qs. fst res = asked @ qs
                       \<and> poll_post w (length asked) operation qs (snd res)"
    and eq: "(if is_done operation then Some (asked, Inr operation)
      else case getVideosOperation w (length asked) operation of
           Inl e \<Rightarrow> Some (asked @ [operation], Inl e)
           | Inr operation' \<Rightarrow> poll' w (asked @ [operation]) operation') = Some res"
  show "\<exists>qs. fst res = asked @ qs \<and> poll_post w (length asked) operation qs (snd res)"
  proof (cases "is_done operation")
    case True
    with eq have "res = (asked, Inr operation)" by simp
    with True show ?thesis by (simp add: poll_post_def settled_def)
  next
    case False
    show ?thesis
    proof (cases "getVideosOperation w (length asked) operation")
      case (Inl e)
      with False eq have "res = (asked @ [operation], Inl e)" by simp
      with False Inl show ?thesis by (simp add: poll_post_def settled_def)
    next
      case (Inr operation')
      with False eq have "poll' w (asked @ [operation]) operation' = Some res" by simp
      from IH [OF this] obtain qs where
        log: "fst res = (asked @ [operation]) @ qs"
        and post: "poll_post w (Suc (length asked)) operation' qs (snd res)"
        by auto
      have "queried w (length asked) (operation # qs) (snd res)"
      proof (cases qs)
        case Nil
        with post have "snd res = Inr operation'"
          by (simp add: poll_post_def split: if_splits)
        with Nil False Inr show ?thesis by simp
      next
        case (Cons q rest)
        with post have "q = operation'" and "queried w (Suc (length asked)) (q # rest) (snd res)"
          by (simp_all add: poll_post_def split: if_splits)
        with Cons False Inr show ?thesis by simp
      qed
      moreover from post have "settled (snd res)" by (simp add: poll_post_def)
      ultimately have "poll_post w (length asked) operation (operation # qs) (snd res)"
        using False by (simp add: poll_post_def)
      with log show ?thesis by auto
    qed
  qed
qed

section \<open>Materialization\<close>

lemma split_js_nonempty: "split_js sep s \<noteq> []"
  by (induction s) (auto split: list.splits)

lemma split_js_segments: "seg \<in> set (split_js sep s) \<Longrightarrow> sep \<notin> set seg"
proof (induction s arbitrary: seg)
  case Nil
  then show ?case by simp
next
  case (Cons c cs)
  show ?case
  proof (cases "c = sep")
    case True
    with Cons show ?thesis by auto
  next
    case False
    obtain x xs where sp: "split_js sep cs = x # xs"
      using split_js_nonempty [of sep cs] by (cases "split_js sep cs") auto
    with False Cons.prems have "seg = c # x \<or> seg \<in> set xs" by simp
    then show ?thesis
    proof
      assume "seg = c # x"
      moreover have "sep \<notin> set x" using Cons.IH [of x] sp by simp
      ultimately show ?thesis using False by auto
    next
      assume "seg \<in> set xs"
      then show ?thesis using Cons.IH [of seg] sp by simp
    qed
  qed
qed

lemma bloblToBase64_bare: "bloblToBase64 w b = Some s \<Longrightarrow> comma \<notin> set s"
proof -
  assume a: "bloblToBase64 w b = Some s"
  then have "s \<in> set (split_js comma (readAsDataURL w b))"
    by (auto simp: bloblToBase64_def split: list.splits)
  then show ?thesis by (rule split_js_segments)
qed

lemma fetch_tasks_length: "length (fetch_tasks w i gs) = length gs"
  by (induction gs arbitrary: i) auto

lemma fetch_tasks_nth:
  "j < length gs \<Longrightarrow> fetch_tasks w i gs ! j = fetch_task w (i + j) (gs ! j)"
proof (induction gs arbitrary: i j)
  case Nil
  then show ?case by simp
next
  case (Cons g gs)
  then show ?case by (cases j) auto
qed

lemma rejections_set:
  "set (rejections i rs) = {(i + j, e) | j e. j < length rs \<and> rs ! j = Inl e}"
proof (induction i rs rule: rejections.induct)
  case (1 i)
  then show ?case by simp
next
  case (2 i e rs)
  show ?case
  proof (rule set_eqI)
    fix x
    show "x \<in> set (rejections i (Inl e # rs))
            \<longleftrightarrow> x \<in> {(i + j, e') | j e'. j < length (Inl e # rs) \<and> (Inl e # rs) ! j = Inl e'}"
    proof
      assume "x \<in> set (rejections i (Inl e # rs))"
      then have "x = (i, e) \<or> x \<in> set (rejections (Suc i) rs)" by simp
      then show "x \<in> {(i + j, e') | j e'. j < length (Inl e # rs) \<and> (Inl e # rs) ! j = Inl e'}"
      proof
        assume "x = (i, e)"
        then have "x = (i + 0, e) \<and> 0 < length (Inl e # rs) \<and> (Inl e # rs) ! 0 = Inl e" by simp
        then show ?thesis by blast
      next
        assume "x \<in> set (rejections (Suc i) rs)"
        with 2 obtain j e' where "x = (Suc i + j, e')" "j < length rs" "rs ! j = Inl e'" by auto
        then have "x = (i + Suc j, e') \<and> Suc j < length (Inl e # rs) \<and> (Inl e # rs) ! Suc j = Inl e'"
          by simp
        then show ?thesis by blast
      qed
    next
      assume "x \<in> {(i + j, e') | j e'. j < length (Inl e # rs) \<and> (Inl e # rs) ! j = Inl e'}"
      then obtain j e' where x: "x = (i + j, e')" "j < length (Inl e # rs)" "(Inl e # rs) ! j = Inl e'"
        by auto
      show "x \<in> set (rejections i (Inl e # rs))"
      proof (cases j)
        case 0
        with x show ?thesis by simp
      next
        case (Suc k)
        with x have "x = (Suc i + k, e') \<and> k < length rs \<and> rs ! k = Inl e'" by simp
        with 2 have "x \<in> set (rejections (Suc i) rs)" by blast
        then show ?thesis by simp
      qed
    qed
  qed
next
  case (3 i v rs)
  show ?case
  proof (rule set_eqI)
    fix x
    show "x \<in> set (rejections i (Inr v # rs))
            \<longleftrightarrow> x \<in> {(i + j, e') | j e'. j < length (Inr v # rs) \<and> (Inr v # rs) ! j = Inl e'}"
    proof
      assume "x \<in> set (rejections i (Inr v # rs))"
      with 3 obtain j e' where "x = (Suc i + j, e')" "j < length rs" "rs ! j = Inl e'" by auto
      then have "x = (i + Suc j, e') \<and> Suc j < length (Inr v # rs) \<and> (Inr v # rs) ! Suc j = Inl e'"
        by simp
      then show "x \<in> {(i + j, e') | j e'. j < length (Inr v # rs) \<and> (Inr v # rs) ! j = Inl e'}"
        by blast
    next
      assume "x \<in> {(i + j, e') | j e'. j < length (Inr v # rs) \<and> (Inr v # rs) ! j = Inl e'}"
      then obtain j e' where x: "x = (i + j, e')" "j < length (Inr v # rs)" "(Inr v # rs) ! j = Inl e'"
        by auto
      show "x \<in> set (rejections i (Inr v # rs))"
      proof (cases j)
        case 0
        with x show ?thesis by simp
      next
        case (Suc k)
        with x have "x = (Suc i + k, e') \<and> k < length rs \<and> rs ! k = Inl e'" by simp
        with 3 have "x \<in> set (rejections (Suc i) rs)" by blast
        then show ?thesis by simp
      qed
    qed
  qed
qed

lemma first_rejection_None: "first_rejection t xs = None \<longleftrightarrow> xs = []"
  by (induction t xs rule: first_rejection.induct) (auto split: option.splits)

lemma first_rejection_Some:
  "first_rejection t xs = Some (j, e) \<Longrightarrow>
     (j, e) \<in> set xs \<and> (\<forall>x \<in> set xs. t j \<le> t (fst x))"
proof (induction t xs arbitrary: j e rule: first_rejection.induct)
  case (1 t)
  then show ?case by simp
next
  case (2 t i e0 rest)
  show ?case
  proof (cases "first_rejection t rest")
    case None
    with 2(2) have "j = i" "e = e0" by simp_all
    moreover from None have "rest = []" by (simp add: first_rejection_None)
    ultimately show ?thesis by simp
  next
    case (Some p)
    obtain k e' where p: "p = (k, e')" by (cases p)
    from 2(1) [of k e'] Some p have IH: "(k, e') \<in> set rest" "\<forall>x \<in> set rest. t k \<le> t (fst x)"
      by simp_all
    show ?thesis
    proof (cases "t i \<le> t k")
      case True
      with 2(2) Some p have "j = i" "e = e0" by simp_all
      with True IH show ?thesis by (auto intro: order_trans)
    next
      case False
      with 2(2) Some p have "j = k" "e = e'" by simp_all
      with False IH show ?thesis by auto
    qed
  qed
qed

lemma fulfilled_all:
  "\<forall>j < length rs. \<forall>e. rs ! j \<noteq> Inl e \<Longrightarrow>
     length (fulfilled rs) = length rs \<and> (\<forall>j < length rs. rs ! j = Inr (fulfilled rs ! j))"
proof (induction rs rule: fulfilled.induct)
  case 1
  then show ?case by simp
next
  case (2 e rs)
  then have False by force
  then show ?case ..
next
  case (3 v rs)
  from 3(2) have "\<forall>j < length rs. \<forall>e. rs ! j \<noteq> Inl e" by force
  from 3(1) [OF this] show ?case
    by (auto simp: nth_Cons split: nat.splits)
qed

lemma Promise_all_Inr:
  assumes "Promise_all t rs = Inr vs"
  shows "length vs = length rs \<and> (\<forall>j < length rs. rs ! j = Inr (vs ! j))"
proof -
  from assms have none: "rejections 0 rs = []" and vs: "vs = fulfilled rs"
    by (auto simp: Promise_all_def first_rejection_None split: option.splits)
  have "\<forall>j < length rs. \<forall>e. rs ! j \<noteq> Inl e"
  proof (intro allI impI notI)
    fix j e assume "j < length rs" "rs ! j = Inl e"
    then have "(0 + j, e) \<in> set (rejections 0 rs)" unfolding rejections_set by blast
    with none show False by simp
  qed
  from fulfilled_all [OF this] vs show ?thesis by simp
qed

lemma Promise_all_Inl:
  assumes "Promise_all t rs = Inl e"
  shows "\<exists>j < length rs. rs ! j = Inl e \<and> (\<forall>i < length rs. \<forall>e'. rs ! i = Inl e' \<longrightarrow> t j \<le> t i)"
proof -
  from assms obtain j where fr: "first_rejection t (rejections 0 rs) = Some (j, e)"
    by (auto simp: Promise_all_def split: option.splits)
  from first_rejection_Some [OF fr] have mem: "(j, e) \<in> set (rejections 0 rs)"
    and least: "\<forall>x \<in> set (rejections 0 rs). t j \<le> t (fst x)" by simp_all
  from mem have j: "j < length rs" "rs ! j = Inl e" unfolding rejections_set by auto
  have "\<forall>i < length rs. \<forall>e'. rs ! i = Inl e' \<longrightarrow> t j \<le> t i"
  proof (intro allI impI)
    fix i e' assume "i < length rs" "rs ! i = Inl e'"
    then have "(0 + i, e') \<in> set (rejections 0 rs)" unfolding rejections_set by blast
    with least show "t j \<le> t i" by force
  qed
  with j show ?thesis by blast
qed

lemma Promise_all_rejects:
  assumes "j < length rs" and "rs ! j = Inl e"
  shows "\<exists>e'. Promise_all t rs = Inl e'"
proof -
  from assms have "(0 + j, e) \<in> set (rejections 0 rs)" unfolding rejections_set by blast
  then have "rejections 0 rs \<noteq> []" by auto
  then have "first_rejection t (rejections 0 rs) \<noteq> None" by (simp add: first_rejection_None)
  then show ?thesis by (auto simp: Promise_all_def split: option.splits)
qed

section \<open>What generateVideo returns\<close>

lemma fetch_task_events: "ev \<in> set (fst (fetch_task w i g)) \<Longrightarrow> \<exists>u. ev = Fetch u"
  by (auto simp: fetch_task_def Let_def split: option.splits sum.splits)

lemma fetch_tasks_events:
  "ev \<in> set (concat (map fst (fetch_tasks w i gs))) \<Longrightarrow> \<exists>u. ev = Fetch u"
proof (induction gs arbitrary: i)
  case Nil
  then show ?case by simp
next
  case (Cons g gs)
  then show ?case using fetch_task_events [of ev w i g] by auto
qed

lemma materialize_events: "ev \<in> set (fst (materialize w gs)) \<Longrightarrow> \<exists>u. ev = Fetch u"
  using fetch_tasks_events [of ev w 0 gs] by (simp add: materialize_def Let_def)

lemma materialize_Inr_length:
  assumes "snd (materialize w gs) = Inr vs"
  shows "length vs = length gs"
proof -
  from assms have "Promise_all (settle_time w) (map snd (fetch_tasks w 0 gs)) = Inr vs"
    by (simp add: materialize_def Let_def)
  from Promise_all_Inr [OF this] show ?thesis by (simp add: fetch_tasks_length)
qed

text \<open>The ways \<open>generateVideo\<close> returns.\<close>

lemma generateVideo_cases:
  assumes "generateVideo w prompt aspectRatio image_opt n = Some (log, r)"
  obtains
    (rejected) e where
      "generateVideos w (generateVideos_params prompt aspectRatio image_opt n) = Inl e"
      "log = [GenerateVideos (generateVideos_params prompt aspectRatio image_opt n)]"
      "r = Inl e"
  | (poll_failed) submitted asked e where
      "generateVideos w (generateVideos_params prompt aspectRatio image_opt n) = Inr submitted"
      "poll w [] submitted = Some (asked, Inl e)"
      "log = GenerateVideos (generateVideos_params prompt aspectRatio image_opt n)
               # map GetVideosOperation asked"
      "r = Inl e"
  | (empty) submitted asked operation where
      "generateVideos w (generateVideos_params prompt aspectRatio image_opt n) = Inr submitted"
      "poll w [] submitted = Some (asked, Inr operation)"
      "generatedVideos_of operation = []"
      "log = GenerateVideos (generateVideos_params prompt aspectRatio image_opt n)
               # map GetVideosOperation asked"
      "r = Inl no_videos_generated"
  | (materialized) submitted asked operation where
      "generateVideos w (generateVideos_params prompt aspectRatio image_opt n) = Inr submitted"
      "poll w [] submitted = Some (asked, Inr operation)"
      "generatedVideos_of operation \<noteq> []"
      "log = GenerateVideos (generateVideos_params prompt aspectRatio image_opt n)
               # map GetVideosOperation asked
               @ fst (materialize w (generatedVideos_of operation))"
      "r = snd (materialize w (generatedVideos_of operation))"
  using assms
  by (auto simp: generateVideo_def Let_def generatedVideos_of_def
      split: sum.splits option.splits list.splits prod.splits)

lemma generateVideo_submits_once:
  assumes "generateVideo w prompt aspectRatio image_opt n = Some (log, r)"
  shows "\<exists>rest. log = GenerateVideos (generateVideos_params prompt aspectRatio image_opt n) # rest
           \<and> (\<forall>ev \<in> set rest. \<not> is_submission ev)"
  using assms
proof (cases rule: generateVideo_cases)
  case (materialized submitted asked operation)
  have "\<forall>ev \<in> set (map GetVideosOperation asked
           @ fst (materialize w (generatedVideos_of operation))). \<not> is_submission ev"
  proof
    fix ev
    assume "ev \<in> set (map GetVideosOperation asked
                  @ fst (materialize w (generatedVideos_of operation)))"
    then consider q where "ev = GetVideosOperation q"
      | "ev \<in> set (fst (materialize w (generatedVideos_of operation)))" by auto
    then show "\<not> is_submission ev"
    proof cases
      case 1
      then show ?thesis by (simp add: is_submission_def)
    next
      case 2
      from materialize_events [OF this] obtain u where "ev = Fetch u" ..
      then show ?thesis by (simp add: is_submission_def)
    qed
  qed
  with materialized(4) show ?thesis by simp
qed (auto simp: is_submission_def)

lemma generateVideo_Inr_nonempty:
  assumes "generateVideo w prompt aspectRatio image_opt n = Some (log, Inr vs)"
  shows "vs \<noteq> []"
  using assms
proof (cases rule: generateVideo_cases)
  case (materialized submitted asked operation)
  from materialized(5) have "length vs = length (generatedVideos_of operation)"
    by (intro materialize_Inr_length) simp
  with materialized(3) show ?thesis by auto
qed (auto simp: no_videos_generated_def)

section \<open>Runs against the test services\<close>

lemma js_append: "js a @ js b = js (a @ b)"
  by (simp add: js_def)

lemma test_sel:
  "API_KEY (test_world submit serve uuid gs) = js ''K''"
  "generateVideos (test_world submit serve uuid gs) = submit"
  "decodeURIComponent (test_world submit serve uuid gs) u = Inr u"
  "fetch (test_world submit serve uuid gs) i url = Inr (serve i)"
  "settle_time (test_world submit serve uuid gs) = (\<lambda>i. i)"
  "randomUUID (test_world submit serve uuid gs) = uuid"
  by (simp_all add: test_world_def)

lemma poll_test:
  "poll (test_world submit serve uuid gs) [] pending_operation
     = Some ([pending_operation, running_operation], Inr (finished_operation gs))"
  by (simp add: poll.simps test_world_def pending_operation_def running_operation_def
      finished_operation_def is_done_def)

lemma finished_sel:
  "response (finished_operation gs) = Some \<lparr>generatedVideos = Some gs\<rparr>"
  by (simp add: finished_operation_def)

lemma poll_finished:
  "poll w [] (finished_operation gs) = Some ([], Inr (finished_operation gs))"
  by (simp add: poll.simps finished_operation_def is_done_def)

lemma bloblToBase64_test:
  "bloblToBase64 (test_world submit serve uuid gs)
     \<lparr>blob_type = js ''video/mp4'', blob_bytes = [0]\<rparr> = Some (js ''AA=='')"
  "bloblToBase64 (test_world submit serve uuid gs)
     \<lparr>blob_type = js ''video/mp4'', blob_bytes = [1]\<rparr> = Some (js ''AQ=='')"
  by (simp_all add: bloblToBase64_def test_world_def js_def comma_def)

lemma fetch_task_ok:
  "fetch_task (test_world submit ok_response uuid gs) 0 (asset u)
     = ([Fetch (u @ js ''&key=K'')], Inr (Some (js ''AA=='')))"
  "fetch_task (test_world submit ok_response uuid gs) (Suc 0) (asset u)
     = ([Fetch (u @ js ''&key=K'')], Inr (Some (js ''AQ=='')))"
  by (simp_all add: fetch_task_def asset_def interpolate_def test_sel ok_response_def
      bloblToBase64_test js_append)

lemma fetch_failed_forbidden:
  "fetch_failed forbidden_response = Error (js ''Failed to fetch video: 403 Forbidden'')"
  by (simp add: fetch_failed_def forbidden_response_def js_def)

lemma fetch_task_forbidden:
  "fetch_task (test_world submit (\<lambda>i. forbidden_response) uuid gs) i (asset u)
     = ([Fetch (u @ js ''&key=K'')], Inl (Error (js ''Failed to fetch video: 403 Forbidden'')))"
proof -
  have "\<not> ok forbidden_response" by (simp add: forbidden_response_def)
  then show ?thesis
    by (simp add: fetch_task_def asset_def interpolate_def test_sel js_append
        fetch_failed_forbidden)
qed

lemma materialize_ok1:
  "materialize (test_world submit ok_response uuid gs) [asset u]
     = ([Fetch (u @ js ''&key=K'')], Inr [Some (js ''AA=='')])"
  by (simp add: materialize_def fetch_task_ok Promise_all_def)

lemma materialize_ok2:
  "materialize (test_world submit ok_response uuid gs) [asset u, asset u']
     = ([Fetch (u @ js ''&key=K''), Fetch (u' @ js ''&key=K'')],
        Inr [Some (js ''AA==''), Some (js ''AQ=='')])"
  by (simp add: materialize_def fetch_task_ok Promise_all_def)

lemma materialize_forbidden1:
  "materialize (test_world submit (\<lambda>i. forbidden_response) uuid gs) [asset u]
     = ([Fetch (u @ js ''&key=K'')], Inl (Error (js ''Failed to fetch video: 403 Forbidden'')))"
  by (simp add: materialize_def fetch_task_forbidden Promise_all_def)

lemma generateVideo_demo1:
  "generateVideo (demo_world uuid [asset u]) prompt aspectRatio image_opt n
     = Some ([GenerateVideos (generateVideos_params prompt aspectRatio image_opt n),
              GetVideosOperation pending_operation, GetVideosOperation running_operation,
              Fetch (u @ js ''&key=K'')],
             Inr [Some (js ''AA=='')])"
  by (simp add: generateVideo_def demo_world_def test_sel poll_test materialize_ok1
      finished_sel)

lemma generateVideo_demo2:
  "generateVideo (demo_world uuid [asset u, asset u']) prompt aspectRatio image_opt n
     = Some ([GenerateVideos (generateVideos_params prompt aspectRatio image_opt n),
              GetVideosOperation pending_operation, GetVideosOperation running_operation,
              Fetch (u @ js ''&key=K''), Fetch (u' @ js ''&key=K'')],
             Inr [Some (js ''AA==''), Some (js ''AQ=='')])"
  by (simp add: generateVideo_def demo_world_def test_sel poll_test materialize_ok2
      finished_sel)


lemma generateVideo_forbidden1:
  "generateVideo (forbidden_world [asset u]) prompt aspectRatio image_opt n
     = Some ([GenerateVideos (generateVideos_params prompt aspectRatio image_opt n),
              GetVideosOperation pending_operation, GetVideosOperation running_operation,
              Fetch (u @ js ''&key=K'')],
             Inl (Error (js ''Failed to fetch video: 403 Forbidden'')))"
  by (simp add: generateVideo_def forbidden_world_def test_sel poll_test materialize_forbidden1
      finished_sel)

lemma generateVideo_rejecting:
  "generateVideo rejecting_world prompt aspectRatio image_opt n
     = Some ([GenerateVideos (generateVideos_params prompt aspectRatio image_opt n)],
             Inl (Error (js ''quota exceeded'')))"
  by (simp add: generateVideo_def rejecting_world_def test_sel)

lemma generateVideo_ready1:
  "generateVideo (ready_world [asset u]) prompt aspectRatio image_opt n
     = Some ([GenerateVideos (generateVideos_params prompt aspectRatio image_opt n),
              Fetch (u @ js ''&key=K'')],
             Inr [Some (js ''AA=='')])"
  by (simp add: generateVideo_def ready_world_def test_sel poll_finished materialize_ok1
      finished_sel)

section \<open>The handlers\<close>

lemma handleGenerateNewVideo_unfold:
  "generateVideo w prompt aspectRatio image_opt 1 = Some (log, r) \<Longrightarrow>
     handleGenerateNewVideo w s prompt aspectRatio image_opt
       = Some (log, try_catch_finally (begin_generate s)
                      (commit_video w (generated_title prompt) prompt (begin_generate s) r))"
  by (simp add: handleGenerateNewVideo_def Let_def)

lemma handleSaveEdit_unfold:
  "generateVideo w (description v) Landscape_16_9 None 1 = Some (log, r) \<Longrightarrow>
     handleSaveEdit w s v
       = Some (log, try_catch_finally (begin_remix s)
                      (commit_video w (remix_title v) (description v) (begin_remix s) r))"
  by (simp add: handleSaveEdit_def Let_def)

lemma data_url_literal: "data_url v = js ''data:video/mp4;base64,'' @ interpolate v"
  by (simp add: data_url_def js_def)

text \<open>
  Claim C1. Whenever \<open>generateVideo\<close> returns its assets to
  \<open>handleGenerateNewVideo\<close>, the handler returns; exactly one new Video is put in
  front of the gallery, the older entries keeping their order behind it; its description
  is the submitted prompt, its title is \<open>Generated: \<close> followed by the first 30 code
  units of the prompt (and \<open>...\<close> when the prompt is longer), its \<open>videoUrl\<close> is the
  \<open>video/mp4\<close> data URL of the first materialized asset, and the player overlay is
  open on that Video.
\<close>

theorem generated_video_is_prepended:
  assumes "generateVideo w prompt aspectRatio image_opt 1 = Some (log, Inr videoObjects)"
  shows "\<exists>videoSrc rest newVideo s'.
           videoObjects = videoSrc # rest
         \<and> handleGenerateNewVideo w s prompt aspectRatio image_opt = Some (log, s')
         \<and> videos s' = newVideo # videos s
         \<and> description newVideo = prompt
         \<and> title newVideo
             = js ''Generated: '' @ take 30 prompt @ (if 30 < length prompt then js ''...'' else [])
         \<and> videoUrl newVideo = js ''data:video/mp4;base64,'' @ interpolate videoSrc
         \<and> video_id newVideo = randomUUID w
         \<and> playingVideo s' = Some newVideo
         \<and> player_overlay s' = Some newVideo
         \<and> error_overlay s' = None
         \<and> primary_page s' \<noteq> SavingProgress"
proof -
  from generateVideo_Inr_nonempty [OF assms] obtain videoSrc rest
    where vs: "videoObjects = videoSrc # rest" by (cases videoObjects) auto
  define newVideo where "newVideo =
     \<lparr>video_id = randomUUID w, title = generated_title prompt,
      description = prompt, videoUrl = data_url videoSrc\<rparr>"
  define s' where "s' = (begin_generate s)\<lparr>videos := newVideo # videos s,
     playingVideo := Some newVideo, isSaving := False\<rparr>"
  have run: "handleGenerateNewVideo w s prompt aspectRatio image_opt = Some (log, s')"
    unfolding handleGenerateNewVideo_unfold [OF assms]
    by (simp add: vs commit_video_def try_catch_finally_def finally_block_def begin_generate_def
        s'_def newVideo_def Let_def)
  have "videos s' = newVideo # videos s" "playingVideo s' = Some newVideo"
    "player_overlay s' = Some newVideo" "error_overlay s' = None"
    "primary_page s' \<noteq> SavingProgress"
    by (simp_all add: s'_def begin_generate_def player_overlay_def error_overlay_def
        primary_page_def)
  moreover have "description newVideo = prompt" "video_id newVideo = randomUUID w"
    "title newVideo
       = js ''Generated: '' @ take 30 prompt @ (if 30 < length prompt then js ''...'' else [])"
    "videoUrl newVideo = js ''data:video/mp4;base64,'' @ interpolate videoSrc"
    by (simp_all add: newVideo_def generated_title_def data_url_literal)
  ultimately show ?thesis using vs run by blast
qed


theorem generated_video_is_prepended_witness:
  "generateVideo (demo_world (js ''uuid-1'') [asset cat_uri]) cat_prompt Landscape_16_9 None 1
     = Some ([GenerateVideos (generateVideos_params cat_prompt Landscape_16_9 None 1),
              GetVideosOperation pending_operation, GetVideosOperation running_operation,
              Fetch (cat_uri @ js ''&key=K'')],
             Inr [Some (js ''AA=='')])
   \<and> (\<exists>log1 log2 s1 s2 V1 V2.
         handleGenerateNewVideo (demo_world (js ''uuid-1'') [asset cat_uri]) initial_state
           cat_prompt Landscape_16_9 None = Some (log1, s1)
       \<and> videos s1 = [V1]
       \<and> handleGenerateNewVideo (demo_world (js ''uuid-2'') [asset dog_uri]) s1
           dog_prompt Portrait_9_16 None = Some (log2, s2)
       \<and> videos s2 = [V2, V1]
       \<and> playingVideo s2 = Some V2
       \<and> V1 = \<lparr>video_id = js ''uuid-1'', title = js ''Generated: A cat in a hat'',
                 description = js ''A cat in a hat'',
                 videoUrl = js ''data:video/mp4;base64,AA==''\<rparr>
       \<and> V2 = \<lparr>video_id = js ''uuid-2'',
                 title = js ''Generated: A dog that surfs a very large ...'',
                 description = js ''A dog that surfs a very large wave at dawn'',
                 videoUrl = js ''data:video/mp4;base64,AA==''\<rparr>)"
proof -
  let ?w1 = "demo_world (js ''uuid-1'') [asset cat_uri]"
  let ?w2 = "demo_world (js ''uuid-2'') [asset dog_uri]"
  have h1: "generateVideo ?w1 cat_prompt Landscape_16_9 None 1
     = Some ([GenerateVideos (generateVideos_params cat_prompt Landscape_16_9 None 1),
              GetVideosOperation pending_operation, GetVideosOperation running_operation,
              Fetch (cat_uri @ js ''&key=K'')],
             Inr [Some (js ''AA=='')])"
    by (rule generateVideo_demo1)
  have h2: "generateVideo ?w2 dog_prompt Portrait_9_16 None 1
     = Some ([GenerateVideos (generateVideos_params dog_prompt Portrait_9_16 None 1),
              GetVideosOperation pending_operation, GetVideosOperation running_operation,
              Fetch (dog_uri @ js ''&key=K'')],
             Inr [Some (js ''AA=='')])"
    by (rule generateVideo_demo1)
  from generated_video_is_prepended [OF h1, of initial_state]
  obtain s1 V1 where r1:
    "handleGenerateNewVideo ?w1 initial_state cat_prompt Landscape_16_9 None
       = Some ([GenerateVideos (generateVideos_params cat_prompt Landscape_16_9 None 1),
              GetVideosOperation pending_operation, GetVideosOperation running_operation,
              Fetch (cat_uri @ js ''&key=K'')], s1)"
    "videos s1 = V1 # videos initial_state"
    "description V1 = cat_prompt"
    "title V1 = js ''Generated: '' @ take 30 cat_prompt
                  @ (if 30 < length cat_prompt then js ''...'' else [])"
    "videoUrl V1 = js ''data:video/mp4;base64,'' @ interpolate (Some (js ''AA==''))"
    "video_id V1 = randomUUID ?w1"
    by auto
  from generated_video_is_prepended [OF h2, of s1]
  obtain s2 V2 where r2:
    "handleGenerateNewVideo ?w2 s1 dog_prompt Portrait_9_16 None
       = Some ([GenerateVideos (generateVideos_params dog_prompt Portrait_9_16 None 1),
              GetVideosOperation pending_operation, GetVideosOperation running_operation,
              Fetch (dog_uri @ js ''&key=K'')], s2)"
    "videos s2 = V2 # videos s1"
    "description V2 = dog_prompt"
    "title V2 = js ''Generated: '' @ take 30 dog_prompt
                  @ (if 30 < length dog_prompt then js ''...'' else [])"
    "videoUrl V2 = js ''data:video/mp4;base64,'' @ interpolate (Some (js ''AA==''))"
    "video_id V2 = randomUUID ?w2"
    "playingVideo s2 = Some V2"
    by auto
  have V1: "V1 = \<lparr>video_id = js ''uuid-1'', title = js ''Generated: A cat in a hat'',
                 description = js ''A cat in a hat'',
                 videoUrl = js ''data:video/mp4;base64,AA==''\<rparr>"
    using r1(3-6)
    by (cases V1) (simp add: cat_prompt_def demo_world_def test_sel interpolate_def js_def)
  have V2: "V2 = \<lparr>video_id = js ''uuid-2'',
                 title = js ''Generated: A dog that surfs a very large ...'',
                 description = js ''A dog that surfs a very large wave at dawn'',
                 videoUrl = js ''data:video/mp4;base64,AA==''\<rparr>"
    using r2(3-6)
    by (cases V2) (simp add: dog_prompt_def demo_world_def test_sel interpolate_def js_def)
  have "videos s1 = [V1]" using r1(2) by (simp add: initial_state_def)
  moreover from this have "videos s2 = [V2, V1]" using r2(2) by simp
  ultimately show ?thesis using h1 r1(1) r2(1) r2(7) V1 V2 by blast
qed

lemma failed_run_state:
  "try_catch_finally s1 (commit_video w t d s1 (Inl e))
     = s1\<lparr>generationError := Some generation_failed_message, isSaving := False\<rparr>"
  "try_catch_finally s1 (commit_video w t d s1 (Inr []))
     = s1\<lparr>generationError := Some generation_failed_message, isSaving := False\<rparr>"
  by (simp_all add: try_catch_finally_def commit_video_def catch_block_def finally_block_def)

lemma handler_returns:
  "handleGenerateNewVideo w s prompt aspectRatio image_opt = Some (log, s') \<Longrightarrow>
     \<exists>r. generateVideo w prompt aspectRatio image_opt 1 = Some (log, r)
        \<and> s' = try_catch_finally (begin_generate s)
                  (commit_video w (generated_title prompt) prompt (begin_generate s) r)"
  "handleSaveEdit w s v = Some (log, s') \<Longrightarrow>
     \<exists>r. generateVideo w (description v) Landscape_16_9 None 1 = Some (log, r)
        \<and> s' = try_catch_finally (begin_remix s)
                  (commit_video w (remix_title v) (description v) (begin_remix s) r)"
  by (auto simp: handleGenerateNewVideo_def handleSaveEdit_def Let_def split: option.splits)

lemma run_outcome:
  assumes "s' = try_catch_finally s1 (commit_video w t d s1 r)"
    and "generationError s1 = None"
  shows "\<not> isSaving s'
       \<and> (videos s' = videos s1 \<and> playingVideo s' = playingVideo s1
            \<and> generationError s' = Some generation_failed_message
          \<or> (\<exists>newVideo. videos s' = newVideo # videos s1 \<and> playingVideo s' = Some newVideo
                \<and> generationError s' = None))"
proof (cases r)
  case (Inl e)
  with assms show ?thesis by (simp add: failed_run_state)
next
  case (Inr vs)
  show ?thesis
  proof (cases vs)
    case Nil
    with Inr assms show ?thesis by (simp add: failed_run_state)
  next
    case (Cons videoSrc rest)
    with Inr assms show ?thesis
      by (simp add: try_catch_finally_def commit_video_def finally_block_def Let_def)
  qed
qed

text \<open>
  Claim C2. When \<open>generateVideo\<close> fails with any exception \<open>e\<close> (a rejected submission, a
  failed status query, an empty result, a failed fetch or anything else thrown), each of
  the two handlers returns with the gallery and the playing video as they were, the
  error overlay showing the failure message, and the progress page left. Every return of
  a handler, failed or not, leaves the progress page that was shown while it ran, and
  has either changed nothing in the gallery and raised the error overlay, or put exactly
  one Video in front of it and raised none.
\<close>

theorem failed_run_leaves_gallery:
  "(generateVideo w prompt aspectRatio image_opt 1 = Some (log, Inl e) \<longrightarrow>
      (\<exists>s'. handleGenerateNewVideo w s prompt aspectRatio image_opt = Some (log, s')
          \<and> videos s' = videos s \<and> playingVideo s' = playingVideo s
          \<and> error_overlay s' = Some generation_failed_message
          \<and> \<not> isSaving s' \<and> primary_page s' \<noteq> SavingProgress))
   \<and> (generateVideo w (description v) Landscape_16_9 None 1 = Some (log, Inl e) \<longrightarrow>
      (\<exists>s'. handleSaveEdit w s v = Some (log, s')
          \<and> videos s' = videos s \<and> playingVideo s' = playingVideo s
          \<and> error_overlay s' = Some generation_failed_message
          \<and> \<not> isSaving s' \<and> primary_page s' \<noteq> SavingProgress))
   \<and> (handleGenerateNewVideo w s prompt aspectRatio image_opt = Some (log, s') \<longrightarrow>
          \<not> isSaving s' \<and> primary_page s' \<noteq> SavingProgress
          \<and> (videos s' = videos s \<and> error_overlay s' = Some generation_failed_message
             \<or> (\<exists>newVideo. videos s' = newVideo # videos s \<and> error_overlay s' = None)))
   \<and> (handleSaveEdit w s v = Some (log, s') \<longrightarrow>
          \<not> isSaving s' \<and> primary_page s' \<noteq> SavingProgress
          \<and> (videos s' = videos s \<and> error_overlay s' = Some generation_failed_message
             \<or> (\<exists>newVideo. videos s' = newVideo # videos s \<and> error_overlay s' = None)))
   \<and> primary_page (begin_generate s) = SavingProgress
   \<and> primary_page (begin_remix s) = SavingProgress"
proof -
  have c1: "generateVideo w prompt aspectRatio image_opt 1 = Some (log, Inl e) \<longrightarrow>
      (\<exists>s'. handleGenerateNewVideo w s prompt aspectRatio image_opt = Some (log, s')
          \<and> videos s' = videos s \<and> playingVideo s' = playingVideo s
          \<and> error_overlay s' = Some generation_failed_message
          \<and> \<not> isSaving s' \<and> primary_page s' \<noteq> SavingProgress)"
  proof
    assume g: "generateVideo w prompt aspectRatio image_opt 1 = Some (log, Inl e)"
    show "\<exists>s'. handleGenerateNewVideo w s prompt aspectRatio image_opt = Some (log, s')
          \<and> videos s' = videos s \<and> playingVideo s' = playingVideo s
          \<and> error_overlay s' = Some generation_failed_message
          \<and> \<not> isSaving s' \<and> primary_page s' \<noteq> SavingProgress"
      unfolding handleGenerateNewVideo_unfold [OF g] failed_run_state
      by (simp add: begin_generate_def error_overlay_def primary_page_def)
  qed
  have c2: "generateVideo w (description v) Landscape_16_9 None 1 = Some (log, Inl e) \<longrightarrow>
      (\<exists>s'. handleSaveEdit w s v = Some (log, s')
          \<and> videos s' = videos s \<and> playingVideo s' = playingVideo s
          \<and> error_overlay s' = Some generation_failed_message
          \<and> \<not> isSaving s' \<and> primary_page s' \<noteq> SavingProgress)"
  proof
    assume g: "generateVideo w (description v) Landscape_16_9 None 1 = Some (log, Inl e)"
    show "\<exists>s'. handleSaveEdit w s v = Some (log, s')
          \<and> videos s' = videos s \<and> playingVideo s' = playingVideo s
          \<and> error_overlay s' = Some generation_failed_message
          \<and> \<not> isSaving s' \<and> primary_page s' \<noteq> SavingProgress"
      unfolding handleSaveEdit_unfold [OF g] failed_run_state
      by (simp add: begin_remix_def error_overlay_def primary_page_def)
  qed
  have c3: "handleGenerateNewVideo w s prompt aspectRatio image_opt = Some (log, s') \<longrightarrow>
          \<not> isSaving s' \<and> primary_page s' \<noteq> SavingProgress
          \<and> (videos s' = videos s \<and> error_overlay s' = Some generation_failed_message
             \<or> (\<exists>newVideo. videos s' = newVideo # videos s \<and> error_overlay s' = None))"
  proof
    assume "handleGenerateNewVideo w s prompt aspectRatio image_opt = Some (log, s')"
    from handler_returns(1) [OF this] obtain r where
      "s' = try_catch_finally (begin_generate s)
              (commit_video w (generated_title prompt) prompt (begin_generate s) r)" by blast
    from run_outcome [OF this]
    show "\<not> isSaving s' \<and> primary_page s' \<noteq> SavingProgress
          \<and> (videos s' = videos s \<and> error_overlay s' = Some generation_failed_message
             \<or> (\<exists>newVideo. videos s' = newVideo # videos s \<and> error_overlay s' = None))"
      by (auto simp: begin_generate_def primary_page_def error_overlay_def)
  qed
  have c4: "handleSaveEdit w s v = Some (log, s') \<longrightarrow>
          \<not> isSaving s' \<and> primary_page s' \<noteq> SavingProgress
          \<and> (videos s' = videos s \<and> error_overlay s' = Some generation_failed_message
             \<or> (\<exists>newVideo. videos s' = newVideo # videos s \<and> error_overlay s' = None))"
  proof
    assume "handleSaveEdit w s v = Some (log, s')"
    from handler_returns(2) [OF this] obtain r where
      "s' = try_catch_finally (begin_remix s)
              (commit_video w (remix_title v) (description v) (begin_remix s) r)" by blast
    from run_outcome [OF this]
    show "\<not> isSaving s' \<and> primary_page s' \<noteq> SavingProgress
          \<and> (videos s' = videos s \<and> error_overlay s' = Some generation_failed_message
             \<or> (\<exists>newVideo. videos s' = newVideo # videos s \<and> error_overlay s' = None))"
      by (auto simp: begin_remix_def primary_page_def error_overlay_def)
  qed
  have c5: "primary_page (begin_generate s) = SavingProgress"
    by (simp add: primary_page_def begin_generate_def)
  have c6: "primary_page (begin_remix s) = SavingProgress"
    by (simp add: primary_page_def begin_remix_def)
  from c1 c2 c3 c4 c5 c6 show ?thesis by blast
qed

theorem failed_run_leaves_gallery_witness:
  "generateVideo (forbidden_world [asset cat_uri]) dog_prompt Portrait_9_16 None 1
     = Some ([GenerateVideos (generateVideos_params dog_prompt Portrait_9_16 None 1),
              GetVideosOperation pending_operation, GetVideosOperation running_operation,
              Fetch (cat_uri @ js ''&key=K'')],
             Inl (Error (js ''Failed to fetch video: 403 Forbidden'')))
   \<and> map_option (videos \<circ> snd)
         (handleGenerateNewVideo (forbidden_world [asset cat_uri]) form_open_state
            dog_prompt Portrait_9_16 None) = Some [cat_video]
   \<and> map_option (error_overlay \<circ> snd)
         (handleGenerateNewVideo (forbidden_world [asset cat_uri]) form_open_state
            dog_prompt Portrait_9_16 None) = Some (Some generation_failed_message)
   \<and> map_option (isSaving \<circ> snd)
         (handleGenerateNewVideo (forbidden_world [asset cat_uri]) form_open_state
            dog_prompt Portrait_9_16 None) = Some False
   \<and> generateVideo rejecting_world (description cat_video) Landscape_16_9 None 1
     = Some ([GenerateVideos (generateVideos_params (description cat_video) Landscape_16_9 None 1)],
             Inl (Error (js ''quota exceeded'')))
   \<and> map_option (videos \<circ> snd) (handleSaveEdit rejecting_world editor_open_state cat_video)
       = Some [cat_video]
   \<and> map_option (isSaving \<circ> snd) (handleSaveEdit rejecting_world editor_open_state cat_video)
       = Some False"
proof -
  have h1: "generateVideo (forbidden_world [asset cat_uri]) dog_prompt Portrait_9_16 None 1
     = Some ([GenerateVideos (generateVideos_params dog_prompt Portrait_9_16 None 1),
              GetVideosOperation pending_operation, GetVideosOperation running_operation,
              Fetch (cat_uri @ js ''&key=K'')],
             Inl (Error (js ''Failed to fetch video: 403 Forbidden'')))"
    by (rule generateVideo_forbidden1)
  have h2: "generateVideo rejecting_world (description cat_video) Landscape_16_9 None 1
     = Some ([GenerateVideos (generateVideos_params (description cat_video) Landscape_16_9 None 1)],
             Inl (Error (js ''quota exceeded'')))"
    by (rule generateVideo_rejecting)
  have v1: "videos form_open_state = [cat_video]"
    by (simp add: form_open_state_def handleStartGenerate_def)
  have v2: "videos editor_open_state = [cat_video]"
    by (simp add: editor_open_state_def handleStartEdit_def)
  from failed_run_leaves_gallery [where w = "forbidden_world [asset cat_uri]"
      and prompt = dog_prompt and aspectRatio = Portrait_9_16 and image_opt = None
      and s = form_open_state] h1
  obtain s1 where
    "handleGenerateNewVideo (forbidden_world [asset cat_uri]) form_open_state
       dog_prompt Portrait_9_16 None = Some
         ([GenerateVideos (generateVideos_params dog_prompt Portrait_9_16 None 1),
              GetVideosOperation pending_operation, GetVideosOperation running_operation,
              Fetch (cat_uri @ js ''&key=K'')], s1)"
    "videos s1 = videos form_open_state"
    "error_overlay s1 = Some generation_failed_message" "\<not> isSaving s1"
    by blast
  moreover
  from failed_run_leaves_gallery [where w = rejecting_world and v = cat_video
      and s = editor_open_state] h2
  obtain s2 where
    "handleSaveEdit rejecting_world editor_open_state cat_video = Some
       ([GenerateVideos (generateVideos_params (description cat_video) Landscape_16_9 None 1)], s2)"
    "videos s2 = videos editor_open_state" "\<not> isSaving s2"
    by blast
  ultimately show ?thesis using h1 h2 v1 v2 by simp
qed

text \<open>
  Claim C3. Whatever the exception \<open>e\<close> that \<open>generateVideo\<close> fails with, both handlers
  store the same two lines, the headline \<open>Video generation failed.\<close> and the hint about
  billing and the paid tier; the \<open>catch\<close> block does not look at the exception.
\<close>

theorem error_message_is_fixed:
  "(generateVideo w prompt aspectRatio image_opt 1 = Some (log, Inl e) \<longrightarrow>
      map_option (generationError \<circ> snd) (handleGenerateNewVideo w s prompt aspectRatio image_opt)
        = Some (Some [js ''Video generation failed.'',
                      js ''This may be due to a billing issue. Please ensure your Cloud Project is on a paid tier to use this feature.'']))
   \<and> (generateVideo w (description v) Landscape_16_9 None 1 = Some (log, Inl e) \<longrightarrow>
      map_option (generationError \<circ> snd) (handleSaveEdit w s v)
        = Some (Some [js ''Video generation failed.'',
                      js ''This may be due to a billing issue. Please ensure your Cloud Project is on a paid tier to use this feature.'']))
   \<and> generationError (catch_block e s)
        = Some [js ''Video generation failed.'',
                js ''This may be due to a billing issue. Please ensure your Cloud Project is on a paid tier to use this feature.'']
   \<and> catch_block e s = catch_block e' s"
proof -
  have c1: "generateVideo w prompt aspectRatio image_opt 1 = Some (log, Inl e) \<longrightarrow>
      map_option (generationError \<circ> snd) (handleGenerateNewVideo w s prompt aspectRatio image_opt)
        = Some (Some generation_failed_message)"
  proof
    assume g: "generateVideo w prompt aspectRatio image_opt 1 = Some (log, Inl e)"
    show "map_option (generationError \<circ> snd)
            (handleGenerateNewVideo w s prompt aspectRatio image_opt)
        = Some (Some generation_failed_message)"
      unfolding handleGenerateNewVideo_unfold [OF g] failed_run_state by simp
  qed
  have c2: "generateVideo w (description v) Landscape_16_9 None 1 = Some (log, Inl e) \<longrightarrow>
      map_option (generationError \<circ> snd) (handleSaveEdit w s v)
        = Some (Some generation_failed_message)"
  proof
    assume g: "generateVideo w (description v) Landscape_16_9 None 1 = Some (log, Inl e)"
    show "map_option (generationError \<circ> snd) (handleSaveEdit w s v)
        = Some (Some generation_failed_message)"
      unfolding handleSaveEdit_unfold [OF g] failed_run_state by simp
  qed
  have c3: "generationError (catch_block e s) = Some generation_failed_message"
    and c4: "catch_block e s = catch_block e' s"
    by (simp_all add: catch_block_def)
  from c1 c2 c3 c4 show ?thesis unfolding generation_failed_message_def by blast
qed

theorem error_message_is_fixed_witness:
  "generateVideo (forbidden_world [asset cat_uri]) cat_prompt Landscape_16_9 None 1
     = Some ([GenerateVideos (generateVideos_params cat_prompt Landscape_16_9 None 1),
              GetVideosOperation pending_operation, GetVideosOperation running_operation,
              Fetch (cat_uri @ js ''&key=K'')],
             Inl (Error (js ''Failed to fetch video: 403 Forbidden'')))
   \<and> generateVideo rejecting_world cat_prompt Landscape_16_9 None 1
     = Some ([GenerateVideos (generateVideos_params cat_prompt Landscape_16_9 None 1)],
             Inl (Error (js ''quota exceeded'')))
   \<and> map_option (generationError \<circ> snd)
         (handleGenerateNewVideo (forbidden_world [asset cat_uri]) initial_state
            cat_prompt Landscape_16_9 None)
       = Some (Some [js ''Video generation failed.'',
                     js ''This may be due to a billing issue. Please ensure your Cloud Project is on a paid tier to use this feature.''])
   \<and> map_option (generationError \<circ> snd)
         (handleGenerateNewVideo (forbidden_world [asset cat_uri]) initial_state
            cat_prompt Landscape_16_9 None)
       = map_option (generationError \<circ> snd) (handleSaveEdit rejecting_world initial_state cat_video)"
proof -
  have h1: "generateVideo (forbidden_world [asset cat_uri]) cat_prompt Landscape_16_9 None 1
     = Some ([GenerateVideos (generateVideos_params cat_prompt Landscape_16_9 None 1),
              GetVideosOperation pending_operation, GetVideosOperation running_operation,
              Fetch (cat_uri @ js ''&key=K'')],
             Inl (Error (js ''Failed to fetch video: 403 Forbidden'')))"
    by (rule generateVideo_forbidden1)
  have h2: "generateVideo rejecting_world cat_prompt Landscape_16_9 None 1
     = Some ([GenerateVideos (generateVideos_params cat_prompt Landscape_16_9 None 1)],
             Inl (Error (js ''quota exceeded'')))"
    by (rule generateVideo_rejecting)
  have h3: "generateVideo rejecting_world (description cat_video) Landscape_16_9 None 1
     = Some ([GenerateVideos (generateVideos_params cat_prompt Landscape_16_9 None 1)],
             Inl (Error (js ''quota exceeded'')))"
    by (simp add: cat_video_def generateVideo_rejecting)
  from error_message_is_fixed [where w = "forbidden_world [asset cat_uri]"
        and prompt = cat_prompt and aspectRatio = Landscape_16_9 and image_opt = None
        and s = initial_state] h1
  have a: "map_option (generationError \<circ> snd)
         (handleGenerateNewVideo (forbidden_world [asset cat_uri]) initial_state
            cat_prompt Landscape_16_9 None)
       = Some (Some [js ''Video generation failed.'',
                     js ''This may be due to a billing issue. Please ensure your Cloud Project is on a paid tier to use this feature.''])"
    by blast
  from error_message_is_fixed [where w = rejecting_world and v = cat_video
        and s = initial_state] h3
  have b: "map_option (generationError \<circ> snd) (handleSaveEdit rejecting_world initial_state cat_video)
       = Some (Some [js ''Video generation failed.'',
                     js ''This may be due to a billing issue. Please ensure your Cloud Project is on a paid tier to use this feature.''])"
    by blast
  from a b have "map_option (generationError \<circ> snd)
         (handleGenerateNewVideo (forbidden_world [asset cat_uri]) initial_state
            cat_prompt Landscape_16_9 None)
       = map_option (generationError \<circ> snd) (handleSaveEdit rejecting_world initial_state cat_video)"
    by (rule trans [OF _ sym])
  with h1 h2 a show ?thesis by blast
qed

text \<open>
  Claim C8. The object passed to \<open>generateVideos\<close> has the properties \<open>model\<close>,
  \<open>prompt\<close> and \<open>config\<close>, and no property \<open>image\<close>, when no image is supplied; with an
  image it has the property \<open>image\<close>, between \<open>prompt\<close> and \<open>config\<close>, holding the
  image's base64 bytes and its media type. This object is what every run of
  \<open>generateVideo\<close> submits, first and once.
\<close>

theorem request_image_field:
  "(image_opt = None \<longrightarrow>
      ''image'' \<notin> fst ` set (properties (generateVideos_params prompt aspectRatio image_opt n))
      \<and> map fst (properties (generateVideos_params prompt aspectRatio image_opt n))
          = [''model'', ''prompt'', ''config''])
   \<and> (image_opt = Some im \<longrightarrow>
      map_of (properties (generateVideos_params prompt aspectRatio image_opt n)) ''image''
        = Some (JObject [(''imageBytes'', JString (base64 im)),
                         (''mimeType'', JString (mimeType im))])
      \<and> map fst (properties (generateVideos_params prompt aspectRatio image_opt n))
          = [''model'', ''prompt'', ''image'', ''config''])
   \<and> (generateVideo w prompt aspectRatio image_opt n = Some (log, r) \<longrightarrow>
      (\<exists>rest. log = GenerateVideos (generateVideos_params prompt aspectRatio image_opt n) # rest
          \<and> (\<forall>ev \<in> set rest. \<not> is_submission ev)))"
proof -
  have c1: "image_opt = None \<longrightarrow>
      ''image'' \<notin> fst ` set (properties (generateVideos_params prompt aspectRatio image_opt n))
      \<and> map fst (properties (generateVideos_params prompt aspectRatio image_opt n))
          = [''model'', ''prompt'', ''config'']"
    by (simp add: generateVideos_params_def properties_def)
  have c2: "image_opt = Some im \<longrightarrow>
      map_of (properties (generateVideos_params prompt aspectRatio image_opt n)) ''image''
        = Some (JObject [(''imageBytes'', JString (base64 im)),
                         (''mimeType'', JString (mimeType im))])
      \<and> map fst (properties (generateVideos_params prompt aspectRatio image_opt n))
          = [''model'', ''prompt'', ''image'', ''config'']"
    by (simp add: generateVideos_params_def properties_def)
  have c3: "generateVideo w prompt aspectRatio image_opt n = Some (log, r) \<longrightarrow>
      (\<exists>rest. log = GenerateVideos (generateVideos_params prompt aspectRatio image_opt n) # rest
          \<and> (\<forall>ev \<in> set rest. \<not> is_submission ev))"
    using generateVideo_submits_once by blast
  from c1 c2 c3 show ?thesis by blast
qed

theorem request_image_field_witness:
  "properties (generateVideos_params cat_prompt Landscape_16_9 None 1)
     = [(''model'', JString (js ''veo-2.0-generate-001'')),
        (''prompt'', JString (js ''A cat in a hat'')),
        (''config'', JObject [(''numberOfVideos'', JNumber 1),
                              (''aspectRatio'', JString (js ''16:9''))])]
   \<and> ''image'' \<notin> fst ` set (properties (generateVideos_params cat_prompt Landscape_16_9 None 1))
   \<and> properties (generateVideos_params cat_prompt Portrait_9_16 (Some cat_image) 1)
     = [(''model'', JString (js ''veo-2.0-generate-001'')),
        (''prompt'', JString (js ''A cat in a hat'')),
        (''image'', JObject [(''imageBytes'', JString (js ''iVBORw0KGgo='')),
                             (''mimeType'', JString (js ''image/png''))]),
        (''config'', JObject [(''numberOfVideos'', JNumber 1),
                              (''aspectRatio'', JString (js ''9:16''))])]
   \<and> map_of (properties (generateVideos_params cat_prompt Portrait_9_16 (Some cat_image) 1))
         ''image''
     = Some (JObject [(''imageBytes'', JString (js ''iVBORw0KGgo='')),
                      (''mimeType'', JString (js ''image/png''))])"
proof -
  have e1: "properties (generateVideos_params cat_prompt Landscape_16_9 None 1)
     = [(''model'', JString (js ''veo-2.0-generate-001'')),
        (''prompt'', JString (js ''A cat in a hat'')),
        (''config'', JObject [(''numberOfVideos'', JNumber 1),
                              (''aspectRatio'', JString (js ''16:9''))])]"
    by (simp add: generateVideos_params_def properties_def VEO_MODEL_NAME_def cat_prompt_def)
  have e2: "properties (generateVideos_params cat_prompt Portrait_9_16 (Some cat_image) 1)
     = [(''model'', JString (js ''veo-2.0-generate-001'')),
        (''prompt'', JString (js ''A cat in a hat'')),
        (''image'', JObject [(''imageBytes'', JString (js ''iVBORw0KGgo='')),
                             (''mimeType'', JString (js ''image/png''))]),
        (''config'', JObject [(''numberOfVideos'', JNumber 1),
                              (''aspectRatio'', JString (js ''9:16''))])]"
    by (simp add: generateVideos_params_def properties_def VEO_MODEL_NAME_def cat_prompt_def
        cat_image_def)
  have n: "(None :: image_arg option) = None" and sm: "Some cat_image = Some cat_image"
    by simp_all
  from request_image_field [where image_opt = None and prompt = cat_prompt
      and aspectRatio = Landscape_16_9 and n = 1] n
  have a: "''image'' \<notin> fst ` set (properties (generateVideos_params cat_prompt Landscape_16_9 None 1))"
    by blast
  from request_image_field [where image_opt = "Some cat_image" and im = cat_image
      and prompt = cat_prompt and aspectRatio = Portrait_9_16 and n = 1] sm
  have b: "map_of (properties (generateVideos_params cat_prompt Portrait_9_16 (Some cat_image) 1))
         ''image''
     = Some (JObject [(''imageBytes'', JString (base64 cat_image)),
                      (''mimeType'', JString (mimeType cat_image))])"
    by blast
  from e1 e2 a b show ?thesis by (simp add: cat_image_def)
qed

text \<open>
  Claim C9. Closing the error modal clears the error overlay and leaves the gallery, the
  primary page and the player overlay as they were.
\<close>

theorem dismissing_error_keeps_gallery:
  "error_overlay (ErrorModal_onClose s) = None
   \<and> generationError (ErrorModal_onClose s) = None
   \<and> videos (ErrorModal_onClose s) = videos s
   \<and> primary_page (ErrorModal_onClose s) = primary_page s
   \<and> player_overlay (ErrorModal_onClose s) = player_overlay s"
  by (simp add: ErrorModal_onClose_def error_overlay_def primary_page_def player_overlay_def)

theorem dismissing_error_keeps_gallery_witness:
  "error_overlay error_shown_state = Some generation_failed_message
   \<and> error_overlay (ErrorModal_onClose error_shown_state) = None
   \<and> videos (ErrorModal_onClose error_shown_state) = [cat_video]
   \<and> primary_page (ErrorModal_onClose error_shown_state) = Grid"
  using dismissing_error_keeps_gallery [of error_shown_state]
  by (simp add: error_shown_state_def initial_state_def error_overlay_def primary_page_def)

lemma params_literal:
  "generateVideos_params prompt Landscape_16_9 None 1
     = JObject [(''model'', JString (js ''veo-2.0-generate-001'')),
                (''prompt'', JString prompt),
                (''config'', JObject [(''numberOfVideos'', JNumber 1),
                                      (''aspectRatio'', JString (js ''16:9''))])]"
  by (simp add: generateVideos_params_def VEO_MODEL_NAME_def)

text \<open>
  Claim C10. Every run of \<open>handleSaveEdit\<close> submits, first and once, the request with
  the original Video's description as prompt, the aspect ratio \<open>16:9\<close>, one video and no
  \<open>image\<close> property, whatever the original Video is. When \<open>generateVideo\<close> returns its
  assets the run ends without an error, and a run that ends without an error has put in
  front of the gallery a Video whose description is the original's and whose title is
  \<open>Remix of "<original title>"\<close>, and has opened the player on it.
\<close>

theorem remix_request_and_title:
  "(handleSaveEdit w s originalVideo = Some (log, s') \<longrightarrow>
      (\<exists>rest. log = GenerateVideos
                      (JObject [(''model'', JString (js ''veo-2.0-generate-001'')),
                                (''prompt'', JString (description originalVideo)),
                                (''config'', JObject [(''numberOfVideos'', JNumber 1),
                                                      (''aspectRatio'', JString (js ''16:9''))])])
                    # rest
          \<and> (\<forall>ev \<in> set rest. \<not> is_submission ev))
      \<and> (generationError s' = None \<longrightarrow>
           (\<exists>newVideo. videos s' = newVideo # videos s
              \<and> description newVideo = description originalVideo
              \<and> title newVideo = js ''Remix of '' @ dquote @ title originalVideo @ dquote
              \<and> video_id newVideo = randomUUID w
              \<and> playingVideo s' = Some newVideo)))
   \<and> (generateVideo w (description originalVideo) Landscape_16_9 None 1
         = Some (log, Inr videoObjects) \<longrightarrow>
      (\<exists>s'. handleSaveEdit w s originalVideo = Some (log, s') \<and> generationError s' = None
          \<and> (\<exists>rest. map videoUrl (videos s')
                 = (js ''data:video/mp4;base64,'' @ interpolate (hd videoObjects)) # rest)))"
proof -
  have c1: "handleSaveEdit w s originalVideo = Some (log, s') \<longrightarrow>
      (\<exists>rest. log = GenerateVideos
                      (JObject [(''model'', JString (js ''veo-2.0-generate-001'')),
                                (''prompt'', JString (description originalVideo)),
                                (''config'', JObject [(''numberOfVideos'', JNumber 1),
                                                      (''aspectRatio'', JString (js ''16:9''))])])
                    # rest
          \<and> (\<forall>ev \<in> set rest. \<not> is_submission ev))
      \<and> (generationError s' = None \<longrightarrow>
           (\<exists>newVideo. videos s' = newVideo # videos s
              \<and> description newVideo = description originalVideo
              \<and> title newVideo = js ''Remix of '' @ dquote @ title originalVideo @ dquote
              \<and> video_id newVideo = randomUUID w
              \<and> playingVideo s' = Some newVideo))"
  proof
    assume run: "handleSaveEdit w s originalVideo = Some (log, s')"
    from handler_returns(2) [OF run] obtain r where
      g: "generateVideo w (description originalVideo) Landscape_16_9 None 1 = Some (log, r)"
      and s': "s' = try_catch_finally (begin_remix s)
                 (commit_video w (remix_title originalVideo) (description originalVideo)
                    (begin_remix s) r)"
      by blast
    from generateVideo_submits_once [OF g, unfolded params_literal]
    have req: "\<exists>rest. log = GenerateVideos
                      (JObject [(''model'', JString (js ''veo-2.0-generate-001'')),
                                (''prompt'', JString (description originalVideo)),
                                (''config'', JObject [(''numberOfVideos'', JNumber 1),
                                                      (''aspectRatio'', JString (js ''16:9''))])])
                    # rest
          \<and> (\<forall>ev \<in> set rest. \<not> is_submission ev)" .
    have res: "generationError s' = None \<longrightarrow>
           (\<exists>newVideo. videos s' = newVideo # videos s
              \<and> description newVideo = description originalVideo
              \<and> title newVideo = js ''Remix of '' @ dquote @ title originalVideo @ dquote
              \<and> video_id newVideo = randomUUID w
              \<and> playingVideo s' = Some newVideo)"
    proof (cases r)
      case (Inl e)
      with s' show ?thesis by (simp add: failed_run_state)
    next
      case (Inr vs)
      show ?thesis
      proof (cases vs)
        case Nil
        with Inr s' show ?thesis by (simp add: failed_run_state)
      next
        case (Cons videoSrc rest)
        with Inr s' show ?thesis
          by (simp add: try_catch_finally_def commit_video_def finally_block_def Let_def
              begin_remix_def remix_title_def)
      qed
    qed
    from req res show "(\<exists>rest. log = GenerateVideos
                      (JObject [(''model'', JString (js ''veo-2.0-generate-001'')),
                                (''prompt'', JString (description originalVideo)),
                                (''config'', JObject [(''numberOfVideos'', JNumber 1),
                                                      (''aspectRatio'', JString (js ''16:9''))])])
                    # rest
          \<and> (\<forall>ev \<in> set rest. \<not> is_submission ev))
      \<and> (generationError s' = None \<longrightarrow>
           (\<exists>newVideo. videos s' = newVideo # videos s
              \<and> description newVideo = description originalVideo
              \<and> title newVideo = js ''Remix of '' @ dquote @ title originalVideo @ dquote
              \<and> video_id newVideo = randomUUID w
              \<and> playingVideo s' = Some newVideo))" ..
  qed
  have c2: "generateVideo w (description originalVideo) Landscape_16_9 None 1
         = Some (log, Inr videoObjects) \<longrightarrow>
      (\<exists>s'. handleSaveEdit w s originalVideo = Some (log, s') \<and> generationError s' = None
          \<and> (\<exists>rest. map videoUrl (videos s')
                 = (js ''data:video/mp4;base64,'' @ interpolate (hd videoObjects)) # rest))"
  proof
    assume g: "generateVideo w (description originalVideo) Landscape_16_9 None 1
         = Some (log, Inr videoObjects)"
    from generateVideo_Inr_nonempty [OF g] obtain videoSrc rest
      where vs: "videoObjects = videoSrc # rest" by (cases videoObjects) auto
    show "\<exists>s'. handleSaveEdit w s originalVideo = Some (log, s') \<and> generationError s' = None
          \<and> (\<exists>rest. map videoUrl (videos s')
                 = (js ''data:video/mp4;base64,'' @ interpolate (hd videoObjects)) # rest)"
      unfolding handleSaveEdit_unfold [OF g]
      by (simp add: vs try_catch_finally_def commit_video_def finally_block_def Let_def
          begin_remix_def data_url_literal)
  qed
  from c1 c2 show ?thesis by blast
qed

theorem remix_request_and_title_witness:
  "generateVideo (demo_world (js ''uuid-2'') [asset dog_uri]) (description cat_video)
       Landscape_16_9 None 1
     = Some ([GenerateVideos (generateVideos_params cat_prompt Landscape_16_9 None 1),
              GetVideosOperation pending_operation, GetVideosOperation running_operation,
              Fetch (dog_uri @ js ''&key=K'')],
             Inr [Some (js ''AA=='')])
   \<and> (\<exists>s' newVideo.
         handleSaveEdit (demo_world (js ''uuid-2'') [asset dog_uri]) editor_open_state cat_video
           = Some ([GenerateVideos (generateVideos_params cat_prompt Landscape_16_9 None 1),
                    GetVideosOperation pending_operation, GetVideosOperation running_operation,
                    Fetch (dog_uri @ js ''&key=K'')], s')
       \<and> generationError s' = None
       \<and> videos s' = [newVideo, cat_video]
       \<and> description newVideo = js ''A cat in a hat''
       \<and> title newVideo = js ''Remix of '' @ dquote @ js ''Generated: A cat in a hat'' @ dquote
       \<and> playingVideo s' = Some newVideo)"
proof -
  let ?w = "demo_world (js ''uuid-2'') [asset dog_uri]"
  let ?log = "[GenerateVideos (generateVideos_params cat_prompt Landscape_16_9 None 1),
              GetVideosOperation pending_operation, GetVideosOperation running_operation,
              Fetch (dog_uri @ js ''&key=K'')]"
  have h: "generateVideo ?w (description cat_video) Landscape_16_9 None 1
     = Some (?log, Inr [Some (js ''AA=='')])"
    by (simp add: cat_video_def generateVideo_demo1)
  from remix_request_and_title [where w = ?w and s = editor_open_state
      and originalVideo = cat_video and log = ?log and videoObjects = "[Some (js ''AA=='')]"] h
  obtain s' where run: "handleSaveEdit ?w editor_open_state cat_video = Some (?log, s')"
    and ok: "generationError s' = None"
    by blast
  from remix_request_and_title [where w = ?w and s = editor_open_state
      and originalVideo = cat_video and log = ?log and s' = s'] run ok
  obtain newVideo where
    "videos s' = newVideo # videos editor_open_state"
    "description newVideo = description cat_video"
    "title newVideo = js ''Remix of '' @ dquote @ title cat_video @ dquote"
    "playingVideo s' = Some newVideo"
    by blast
  then have "videos s' = [newVideo, cat_video]"
    "description newVideo = js ''A cat in a hat''"
    "title newVideo = js ''Remix of '' @ dquote @ js ''Generated: A cat in a hat'' @ dquote"
    "playingVideo s' = Some newVideo"
    by (simp_all add: editor_open_state_def handleStartEdit_def cat_video_def cat_prompt_def)
  with h run ok show ?thesis by blast
qed

lemma queried_not_done: "queried w n qs outcome \<Longrightarrow> \<forall>q \<in> set qs. \<not> is_done q"
  by (induction w n qs outcome rule: queried.induct) auto

lemma filter_status_queries:
  "filter is_status_query (map GetVideosOperation asked) = map GetVideosOperation asked"
  by (induction asked) (auto simp: is_status_query_def)

lemma materialize_no_status_query: "filter is_status_query (fst (materialize w gs)) = []"
proof -
  have "\<forall>ev \<in> set (fst (materialize w gs)). \<not> is_status_query ev"
  proof
    fix ev assume "ev \<in> set (fst (materialize w gs))"
    from materialize_events [OF this] obtain u where "ev = Fetch u" ..
    then show "\<not> is_status_query ev" by (simp add: is_status_query_def)
  qed
  then show ?thesis by (simp add: filter_empty_conv)
qed

text \<open>
  Claim C5, refuted as stated: when the service answers the submission with an operation
  that is already done, \<open>generateVideo\<close> returns the assets without one status query.
\<close>

theorem no_status_query_counterexample:
  "poll (ready_world [asset cat_uri]) [] (finished_operation [asset cat_uri])
     = Some ([], Inr (finished_operation [asset cat_uri]))
   \<and> generateVideo (ready_world [asset cat_uri]) cat_prompt Landscape_16_9 None 1
     = Some ([GenerateVideos (generateVideos_params cat_prompt Landscape_16_9 None 1),
              Fetch (cat_uri @ js ''&key=K'')],
             Inr [Some (js ''AA=='')])
   \<and> filter is_status_query
         [GenerateVideos (generateVideos_params cat_prompt Landscape_16_9 None 1),
          Fetch (cat_uri @ js ''&key=K'')] = []"
  by (simp add: poll_finished generateVideo_ready1 is_status_query_def)

text \<open>
  Claim C5, amended. The poller queries the status only while the operation it holds is
  not done: no query when the submitted operation is already done, at least one
  otherwise, the first on the submitted operation and each later one on the reply to the
  one before. It stops at the first reply that is done, or at the first query that
  fails, and hands on an operation only when that operation is done; so
  \<open>generateVideo\<close> returns assets only from a done operation. It returns whenever the
  service settles within some number of queries, and only then.
\<close>

theorem poll_queries_until_done:
  "(settles_within w k 0 operation \<longrightarrow> (\<exists>res. poll w [] operation = Some res))
   \<and> (poll w [] operation = Some (qs, outcome) \<longrightarrow>
        queried w 0 qs outcome
      \<and> (is_done operation \<longrightarrow> qs = [] \<and> outcome = Inr operation)
      \<and> (\<not> is_done operation \<longrightarrow> qs \<noteq> [] \<and> hd qs = operation)
      \<and> (\<forall>q \<in> set qs. \<not> is_done q)
      \<and> (\<forall>operation'. outcome = Inr operation' \<longrightarrow> is_done operation')
      \<and> (\<exists>k. settles_within w k 0 operation))
   \<and> (generateVideo w prompt aspectRatio image_opt n = Some (log, Inr videoObjects) \<longrightarrow>
        (\<exists>submitted asked operation'.
            generateVideos w (generateVideos_params prompt aspectRatio image_opt n) = Inr submitted
          \<and> poll w [] submitted = Some (asked, Inr operation')
          \<and> is_done operation'
          \<and> filter is_status_query log = map GetVideosOperation asked))"
proof -
  have c1: "settles_within w k 0 operation \<longrightarrow> (\<exists>res. poll w [] operation = Some res)"
    using poll_terminates [of w k "[]" operation] by simp
  have c2: "poll w [] operation = Some (qs, outcome) \<longrightarrow>
        queried w 0 qs outcome
      \<and> (is_done operation \<longrightarrow> qs = [] \<and> outcome = Inr operation)
      \<and> (\<not> is_done operation \<longrightarrow> qs \<noteq> [] \<and> hd qs = operation)
      \<and> (\<forall>q \<in> set qs. \<not> is_done q)
      \<and> (\<forall>operation'. outcome = Inr operation' \<longrightarrow> is_done operation')
      \<and> (\<exists>k. settles_within w k 0 operation)"
  proof
    assume p: "poll w [] operation = Some (qs, outcome)"
    from poll_shape [OF p] have post: "poll_post w 0 operation qs outcome" by simp
    from poll_settles [OF p] have "\<exists>k. settles_within w k 0 operation" by simp
    moreover from post have "queried w 0 qs outcome" by (simp add: poll_post_def)
    moreover from this have "\<forall>q \<in> set qs. \<not> is_done q" by (rule queried_not_done)
    moreover from post have "is_done operation \<longrightarrow> qs = [] \<and> outcome = Inr operation"
      and "\<not> is_done operation \<longrightarrow> qs \<noteq> [] \<and> hd qs = operation"
      and "\<forall>operation'. outcome = Inr operation' \<longrightarrow> is_done operation'"
      by (auto simp: poll_post_def settled_def split: if_splits)
    ultimately show "queried w 0 qs outcome
      \<and> (is_done operation \<longrightarrow> qs = [] \<and> outcome = Inr operation)
      \<and> (\<not> is_done operation \<longrightarrow> qs \<noteq> [] \<and> hd qs = operation)
      \<and> (\<forall>q \<in> set qs. \<not> is_done q)
      \<and> (\<forall>operation'. outcome = Inr operation' \<longrightarrow> is_done operation')
      \<and> (\<exists>k. settles_within w k 0 operation)" by blast
  qed
  have c3: "generateVideo w prompt aspectRatio image_opt n = Some (log, Inr videoObjects) \<longrightarrow>
        (\<exists>submitted asked operation'.
            generateVideos w (generateVideos_params prompt aspectRatio image_opt n) = Inr submitted
          \<and> poll w [] submitted = Some (asked, Inr operation')
          \<and> is_done operation'
          \<and> filter is_status_query log = map GetVideosOperation asked)"
  proof
    assume g: "generateVideo w prompt aspectRatio image_opt n = Some (log, Inr videoObjects)"
    then show "\<exists>submitted asked operation'.
            generateVideos w (generateVideos_params prompt aspectRatio image_opt n) = Inr submitted
          \<and> poll w [] submitted = Some (asked, Inr operation')
          \<and> is_done operation'
          \<and> filter is_status_query log = map GetVideosOperation asked"
    proof (cases rule: generateVideo_cases)
      case (materialized submitted asked operation')
      from poll_shape [OF materialized(2)] have "is_done operation'"
        by (simp add: poll_post_def settled_def)
      moreover have "filter is_status_query log = map GetVideosOperation asked"
        unfolding materialized(4)
        by (simp add: is_status_query_def filter_status_queries materialize_no_status_query)
      ultimately show ?thesis using materialized(1,2) by blast
    qed (simp_all add: no_videos_generated_def)
  qed
  from c1 c2 c3 show ?thesis by blast
qed

theorem poll_queries_until_done_witness:
  "settles_within (demo_world (js ''uuid-1'') [asset cat_uri]) (Suc (Suc 0)) 0 pending_operation
   \<and> poll (demo_world (js ''uuid-1'') [asset cat_uri]) [] pending_operation
       = Some ([pending_operation, running_operation], Inr (finished_operation [asset cat_uri]))
   \<and> queried (demo_world (js ''uuid-1'') [asset cat_uri]) 0
         [pending_operation, running_operation] (Inr (finished_operation [asset cat_uri]))
   \<and> \<not> is_done pending_operation \<and> \<not> is_done running_operation
   \<and> is_done (finished_operation [asset cat_uri])
   \<and> generateVideo (demo_world (js ''uuid-1'') [asset cat_uri]) cat_prompt Landscape_16_9 None 1
       = Some ([GenerateVideos (generateVideos_params cat_prompt Landscape_16_9 None 1),
                GetVideosOperation pending_operation, GetVideosOperation running_operation,
                Fetch (cat_uri @ js ''&key=K'')],
               Inr [Some (js ''AA=='')])"
proof -
  let ?w = "demo_world (js ''uuid-1'') [asset cat_uri]"
  have h1: "settles_within ?w (Suc (Suc 0)) 0 pending_operation"
    by (simp add: demo_world_def test_world_def pending_operation_def running_operation_def
        finished_operation_def is_done_def)
  have h2: "poll ?w [] pending_operation
       = Some ([pending_operation, running_operation], Inr (finished_operation [asset cat_uri]))"
    by (simp add: demo_world_def poll_test)
  have h3: "generateVideo ?w cat_prompt Landscape_16_9 None 1
       = Some ([GenerateVideos (generateVideos_params cat_prompt Landscape_16_9 None 1),
                GetVideosOperation pending_operation, GetVideosOperation running_operation,
                Fetch (cat_uri @ js ''&key=K'')],
               Inr [Some (js ''AA=='')])"
    by (rule generateVideo_demo1)
  from poll_queries_until_done [where w = ?w and operation = pending_operation
      and qs = "[pending_operation, running_operation]"
      and outcome = "Inr (finished_operation [asset cat_uri])"] h2
  have "queried ?w 0 [pending_operation, running_operation]
          (Inr (finished_operation [asset cat_uri]))"
    and "\<forall>q \<in> set [pending_operation, running_operation]. \<not> is_done q"
    and "is_done (finished_operation [asset cat_uri])"
    by blast+
  with h1 h2 h3 show ?thesis by simp
qed




lemma trim_blank: "trim blank_prompt = []"
  by (simp add: trim_def blank_prompt_def js_def is_js_space_def)

lemma trim_cat: "trim cat_prompt \<noteq> []"
  by (simp add: trim_def cat_prompt_def js_def is_js_space_def)

lemma prompt_property:
  "map_of (properties (generateVideos_params prompt aspectRatio image_opt n)) ''prompt''
     = Some (JString prompt)"
  by (simp add: generateVideos_params_def properties_def)

text \<open>
  Claim C7, refuted as stated: \<open>generateVideo\<close> builds and submits the request for a
  prompt of three spaces, and returns the assets; nothing raises a validation error.
\<close>

theorem blank_prompt_counterexample:
  "trim blank_prompt = []
   \<and> generateVideo (demo_world (js ''uuid-1'') [asset cat_uri]) blank_prompt Landscape_16_9 None 1
       = Some ([GenerateVideos (generateVideos_params blank_prompt Landscape_16_9 None 1),
                GetVideosOperation pending_operation, GetVideosOperation running_operation,
                Fetch (cat_uri @ js ''&key=K'')],
               Inr [Some (js ''AA=='')])
   \<and> map_of (properties (generateVideos_params blank_prompt Landscape_16_9 None 1)) ''prompt''
       = Some (JString (js ''   ''))"
  by (simp add: trim_blank generateVideo_demo1 prompt_property) (simp add: blank_prompt_def)

text \<open>
  Claim C7, amended. The only check of the prompt is in the form: when the prompt trims
  to the empty string, \<open>handleGenerate\<close> does nothing (no request is built or submitted,
  no error is raised, the state is unchanged), so every run started from the form has a
  prompt that does not trim to the empty string. \<open>generateVideo\<close> itself checks nothing:
  each of its runs starts by submitting the request built from the prompt as given.
\<close>

theorem blank_prompt_is_not_submitted:
  "(trim (form_prompt form) = [] \<longrightarrow> handleGenerate w s form = Some ([], s))
   \<and> (handleGenerate w s form = Some (log, s') \<and> log \<noteq> [] \<longrightarrow> trim (form_prompt form) \<noteq> [])
   \<and> (generateVideo w prompt aspectRatio image_opt n = Some (log, r) \<longrightarrow>
        (\<exists>rest. log = GenerateVideos (generateVideos_params prompt aspectRatio image_opt n) # rest))
   \<and> map_of (properties (generateVideos_params prompt aspectRatio image_opt n)) ''prompt''
       = Some (JString prompt)"
proof -
  have c1: "trim (form_prompt form) = [] \<longrightarrow> handleGenerate w s form = Some ([], s)"
    by (simp add: handleGenerate_def)
  have c2: "handleGenerate w s form = Some (log, s') \<and> log \<noteq> [] \<longrightarrow> trim (form_prompt form) \<noteq> []"
    by (auto simp: handleGenerate_def)
  have c3: "generateVideo w prompt aspectRatio image_opt n = Some (log, r) \<longrightarrow>
        (\<exists>rest. log = GenerateVideos (generateVideos_params prompt aspectRatio image_opt n) # rest)"
    using generateVideo_submits_once by blast
  from c1 c2 c3 prompt_property show ?thesis by blast
qed

theorem blank_prompt_is_not_submitted_witness:
  "trim (form_prompt blank_form) = []
   \<and> handleGenerate (demo_world (js ''uuid-1'') [asset cat_uri]) initial_state blank_form
       = Some ([], initial_state)
   \<and> (\<exists>s'. handleGenerate (demo_world (js ''uuid-1'') [asset cat_uri]) initial_state cat_form
         = Some ([GenerateVideos (generateVideos_params cat_prompt Landscape_16_9 None 1),
                  GetVideosOperation pending_operation, GetVideosOperation running_operation,
                  Fetch (cat_uri @ js ''&key=K'')], s'))
   \<and> trim (form_prompt cat_form) \<noteq> []
   \<and> generateVideo (demo_world (js ''uuid-1'') [asset cat_uri]) blank_prompt Landscape_16_9 None 1
       = Some ([GenerateVideos (generateVideos_params blank_prompt Landscape_16_9 None 1),
                GetVideosOperation pending_operation, GetVideosOperation running_operation,
                Fetch (cat_uri @ js ''&key=K'')],
               Inr [Some (js ''AA=='')])"
proof -
  let ?w = "demo_world (js ''uuid-1'') [asset cat_uri]"
  let ?log = "[GenerateVideos (generateVideos_params cat_prompt Landscape_16_9 None 1),
               GetVideosOperation pending_operation, GetVideosOperation running_operation,
               Fetch (cat_uri @ js ''&key=K'')]"
  have h1: "trim (form_prompt blank_form) = []"
    by (simp add: blank_form_def trim_blank)
  from blank_prompt_is_not_submitted [where form = blank_form and w = ?w and s = initial_state] h1
  have a: "handleGenerate ?w initial_state blank_form = Some ([], initial_state)" by blast
  obtain s' where b: "handleGenerate ?w initial_state cat_form = Some (?log, s')"
    using trim_cat
    by (simp add: handleGenerate_def cat_form_def handleGenerateNewVideo_def generateVideo_demo1
        Let_def)
  have "?log \<noteq> []" by simp
  with blank_prompt_is_not_submitted [where form = cat_form and w = ?w and s = initial_state
      and log = ?log and s' = s'] b
  have c: "trim (form_prompt cat_form) \<noteq> []" by blast
  have d: "generateVideo ?w blank_prompt Landscape_16_9 None 1
       = Some ([GenerateVideos (generateVideos_params blank_prompt Landscape_16_9 None 1),
                GetVideosOperation pending_operation, GetVideosOperation running_operation,
                Fetch (cat_uri @ js ''&key=K'')],
               Inr [Some (js ''AA=='')])"
    by (rule generateVideo_demo1)
  from h1 a b c d show ?thesis by blast
qed

lemma materialize_task:
  assumes "i < length gs"
  shows "map snd (fetch_tasks w 0 gs) ! i = snd (fetch_task w i (gs ! i))"
    and "set (fst (fetch_task w i (gs ! i))) \<subseteq> set (fst (materialize w gs))"
proof -
  from assms have nth: "fetch_tasks w 0 gs ! i = fetch_task w i (gs ! i)"
    using fetch_tasks_nth [of i gs w 0] by simp
  from assms show "map snd (fetch_tasks w 0 gs) ! i = snd (fetch_task w i (gs ! i))"
    by (simp add: fetch_tasks_length nth)
  from assms have "fetch_task w i (gs ! i) \<in> set (fetch_tasks w 0 gs)"
    using nth_mem [of i "fetch_tasks w 0 gs"] by (simp add: fetch_tasks_length nth)
  then show "set (fst (fetch_task w i (gs ! i))) \<subseteq> set (fst (materialize w gs))"
    by (auto simp: materialize_def Let_def)
qed

lemma snd_materialize:
  "snd (materialize w gs) = Promise_all (settle_time w) (map snd (fetch_tasks w 0 gs))"
  by (simp add: materialize_def Let_def)

lemma fetch_task_resolved:
  assumes "video g = Some v" and "decodeURIComponent w (interpolate (uri v)) = Inr url"
  shows "fst (fetch_task w i g) = [Fetch (url @ js ''&key='' @ API_KEY w)]"
    and "fetch w i (url @ js ''&key='' @ API_KEY w) = Inr res \<Longrightarrow> \<not> ok res \<Longrightarrow>
           snd (fetch_task w i g) = Inl (fetch_failed res)"
  using assms by (simp_all add: fetch_task_def Let_def)

lemma fetch_task_payload:
  assumes "snd (fetch_task w i g) = Inr (Some p)"
  shows "comma \<notin> set p"
proof -
  from assms obtain b where "bloblToBase64 w b = Some p"
    by (auto simp: fetch_task_def Let_def split: option.splits sum.splits if_splits)
  then show ?thesis by (rule bloblToBase64_bare)
qed

lemma data_url_tagged: "is_data_url (data_url videoSrc)"
  by (simp add: is_data_url_def data_url_def comma_def js_def)

text \<open>
  Claim C6, refuted as stated: for a job with two assets both files are fetched, but what
  the materialization returns for them is the bare base64 text, without scheme or media
  type, and only the first ever gets the \<open>data:video/mp4;base64,\<close> header, in the
  handler; the second is dropped.
\<close>

theorem second_asset_untagged_counterexample:
  "materialize (demo_world (js ''uuid-1'') [asset cat_uri, asset dog_uri])
       [asset cat_uri, asset dog_uri]
     = ([Fetch (cat_uri @ js ''&key=K''), Fetch (dog_uri @ js ''&key=K'')],
        Inr [Some (js ''AA==''), Some (js ''AQ=='')])
   \<and> \<not> is_data_url (js ''AA=='') \<and> \<not> is_data_url (js ''AQ=='')
   \<and> map_option (map videoUrl \<circ> videos \<circ> snd)
         (handleGenerateNewVideo (demo_world (js ''uuid-1'') [asset cat_uri, asset dog_uri])
            initial_state cat_prompt Landscape_16_9 None)
       = Some [js ''data:video/mp4;base64,AA=='']"
proof -
  have "materialize (demo_world (js ''uuid-1'') [asset cat_uri, asset dog_uri])
       [asset cat_uri, asset dog_uri]
     = ([Fetch (cat_uri @ js ''&key=K''), Fetch (dog_uri @ js ''&key=K'')],
        Inr [Some (js ''AA==''), Some (js ''AQ=='')])"
    by (simp add: demo_world_def materialize_ok2)
  moreover have "\<not> is_data_url (js ''AA=='')" "\<not> is_data_url (js ''AQ=='')"
    by (simp_all add: is_data_url_def js_def)
  moreover have "map_option (map videoUrl \<circ> videos \<circ> snd)
         (handleGenerateNewVideo (demo_world (js ''uuid-1'') [asset cat_uri, asset dog_uri])
            initial_state cat_prompt Landscape_16_9 None)
       = Some [js ''data:video/mp4;base64,AA=='']"
    unfolding handleGenerateNewVideo_unfold [OF generateVideo_demo2]
    by (simp add: try_catch_finally_def commit_video_def finally_block_def Let_def
        begin_generate_def initial_state_def data_url_literal interpolate_def js_append)
  ultimately show ?thesis by blast
qed

lemma split_js_unfold:
  "split_js sep s
     = takeWhile (\<lambda>c. c \<noteq> sep) s
       # (if sep \<in> set s then split_js sep (tl (dropWhile (\<lambda>c. c \<noteq> sep) s)) else [])"
proof (induction s)
  case Nil
  show ?case by simp
next
  case (Cons c cs)
  show ?case
  proof (cases "c = sep")
    case True
    then show ?thesis by simp
  next
    case False
    then show ?thesis by (subst split_js.simps) (simp add: Cons.IH [symmetric] split: list.splits, simp add: Cons.IH)
  qed
qed

lemma split_js_second:
  "(case split_js sep s of _ # payload # _ \<Rightarrow> Some payload | _ \<Rightarrow> None)
     = (if sep \<in> set s
        then Some (takeWhile (\<lambda>c. c \<noteq> sep) (tl (dropWhile (\<lambda>c. c \<noteq> sep) s)))
        else None)"
proof (cases "sep \<in> set s")
  case True
  let ?rest = "tl (dropWhile (\<lambda>c. c \<noteq> sep) s)"
  from True have "split_js sep s = takeWhile (\<lambda>c. c \<noteq> sep) s # split_js sep ?rest"
    using split_js_unfold [of sep s] by simp
  moreover obtain tail where "split_js sep ?rest = takeWhile (\<lambda>c. c \<noteq> sep) ?rest # tail"
    using split_js_unfold [of sep ?rest] by simp
  ultimately show ?thesis using True by simp
next
  case False
  then have "split_js sep s = [takeWhile (\<lambda>c. c \<noteq> sep) s]"
    using split_js_unfold [of sep s] by simp
  with False show ?thesis by simp
qed

lemma second_segment_plain:
  assumes "s = header @ sep # payload" and "sep \<notin> set header" and "sep \<notin> set payload"
  shows "sep \<in> set s"
    and "takeWhile (\<lambda>c. c \<noteq> sep) (tl (dropWhile (\<lambda>c. c \<noteq> sep) s)) = payload"
proof -
  from assms(1) show "sep \<in> set s" by simp
  from assms(2) have "dropWhile (\<lambda>c. c \<noteq> sep) (header @ sep # payload) = sep # payload"
    by (induction header) auto
  moreover from assms(3) have "takeWhile (\<lambda>c. c \<noteq> sep) payload = payload"
    by (induction payload) auto
  ultimately show "takeWhile (\<lambda>c. c \<noteq> sep) (tl (dropWhile (\<lambda>c. c \<noteq> sep) s)) = payload"
    by (simp add: assms(1))
qed

lemma fetch_task_fulfilled:
  assumes "snd (fetch_task w i g) = Inr p"
  shows "\<exists>v url res b. video g = Some v
           \<and> decodeURIComponent w (interpolate (uri v)) = Inr url
           \<and> fetch w i (url @ js ''&key='' @ API_KEY w) = Inr res
           \<and> ok res \<and> blob res = Inr b \<and> p = bloblToBase64 w b"
  using assms
  by (auto simp: fetch_task_def Let_def split: option.splits sum.splits if_splits)

lemma codec_payload:
  "bloblToBase64 (codec_world gs) b = Some (js ''mp4a;base64'')"
  by (simp add: bloblToBase64_def codec_world_def js_def comma_def)

text \<open>
  Claim C6, amended. Materializing the assets of a done job issues the fetch for every
  asset whose URL resolves, not only the first, at the decoded URI followed by
  \<open>&key=\<close> and the credential. A response that is not ok makes its task fail with the
  error \<open>Failed to fetch video: <status> <statusText>\<close>, and then the materialization
  fails; a failed materialization carries the error of a failed task, the one that
  settles first. When it succeeds there is one payload per asset, in order; the payload
  of an asset comes from the blob of its own ok response and is the text between the
  first and the second comma of the data URL the reader produced for that blob
  (\<open>undefined\<close> when that string has no comma). That is the base64 text with the header
  cut off whenever the data URL has the one comma that ends its header; it is never a
  data URL itself. The header \<open>data:video/mp4;base64,\<close> is put in front of a payload by
  the handler, which does so for the first payload only.
\<close>

theorem materialize_fetches_every_asset:
  "(i < length gs \<and> video (gs ! i) = Some v
      \<and> decodeURIComponent w (interpolate (uri v)) = Inr url \<longrightarrow>
        Fetch (url @ js ''&key='' @ API_KEY w) \<in> set (fst (materialize w gs)))
   \<and> (i < length gs \<and> video (gs ! i) = Some v
      \<and> decodeURIComponent w (interpolate (uri v)) = Inr url
      \<and> fetch w i (url @ js ''&key='' @ API_KEY w) = Inr res \<and> \<not> ok res \<longrightarrow>
        snd (fetch_task w i (gs ! i))
          = Inl (Error (js ''Failed to fetch video: '' @ number_toString (status res)
                        @ js '' '' @ statusText res))
        \<and> (\<exists>e. snd (materialize w gs) = Inl e))
   \<and> (snd (materialize w gs) = Inl e \<longrightarrow>
        (\<exists>j < length gs. snd (fetch_task w j (gs ! j)) = Inl e
           \<and> (\<forall>k < length gs. \<forall>e'. snd (fetch_task w k (gs ! k)) = Inl e'
                 \<longrightarrow> settle_time w j \<le> settle_time w k)))
   \<and> (snd (materialize w gs) = Inr ps \<longrightarrow>
        length ps = length gs
        \<and> (\<forall>k < length gs.
              snd (fetch_task w k (gs ! k)) = Inr (ps ! k)
              \<and> (\<exists>v' url' res' b.
                    video (gs ! k) = Some v'
                  \<and> decodeURIComponent w (interpolate (uri v')) = Inr url'
                  \<and> fetch w k (url' @ js ''&key='' @ API_KEY w) = Inr res'
                  \<and> ok res' \<and> blob res' = Inr b
                  \<and> ps ! k
                      = (if comma \<in> set (readAsDataURL w b)
                         then Some (takeWhile (\<lambda>c. c \<noteq> comma)
                                      (tl (dropWhile (\<lambda>c. c \<noteq> comma) (readAsDataURL w b))))
                         else None)
                  \<and> (\<forall>header payload.
                        readAsDataURL w b = header @ comma # payload
                        \<and> comma \<notin> set header \<and> comma \<notin> set payload
                        \<longrightarrow> ps ! k = Some payload))
              \<and> (\<forall>p. ps ! k = Some p \<longrightarrow> comma \<notin> set p \<and> \<not> is_data_url p)))
   \<and> is_data_url (data_url videoSrc)
   \<and> data_url videoSrc = js ''data:video/mp4;base64,'' @ interpolate videoSrc"
proof -
  have c1: "i < length gs \<and> video (gs ! i) = Some v
      \<and> decodeURIComponent w (interpolate (uri v)) = Inr url \<longrightarrow>
        Fetch (url @ js ''&key='' @ API_KEY w) \<in> set (fst (materialize w gs))"
  proof
    assume a: "i < length gs \<and> video (gs ! i) = Some v
      \<and> decodeURIComponent w (interpolate (uri v)) = Inr url"
    then have "fst (fetch_task w i (gs ! i)) = [Fetch (url @ js ''&key='' @ API_KEY w)]"
      by (simp add: fetch_task_resolved(1))
    with materialize_task(2) [of i gs w] a
    show "Fetch (url @ js ''&key='' @ API_KEY w) \<in> set (fst (materialize w gs))" by auto
  qed
  have c2: "i < length gs \<and> video (gs ! i) = Some v
      \<and> decodeURIComponent w (interpolate (uri v)) = Inr url
      \<and> fetch w i (url @ js ''&key='' @ API_KEY w) = Inr res \<and> \<not> ok res \<longrightarrow>
        snd (fetch_task w i (gs ! i))
          = Inl (Error (js ''Failed to fetch video: '' @ number_toString (status res)
                        @ js '' '' @ statusText res))
        \<and> (\<exists>e. snd (materialize w gs) = Inl e)"
  proof
    assume a: "i < length gs \<and> video (gs ! i) = Some v
      \<and> decodeURIComponent w (interpolate (uri v)) = Inr url
      \<and> fetch w i (url @ js ''&key='' @ API_KEY w) = Inr res \<and> \<not> ok res"
    then have t: "snd (fetch_task w i (gs ! i)) = Inl (fetch_failed res)"
      by (simp add: fetch_task_resolved(2))
    with a have "map snd (fetch_tasks w 0 gs) ! i = Inl (fetch_failed res)"
      by (simp add: materialize_task(1))
    moreover from a have "i < length (map snd (fetch_tasks w 0 gs))"
      by (simp add: fetch_tasks_length)
    ultimately have "\<exists>e. Promise_all (settle_time w) (map snd (fetch_tasks w 0 gs)) = Inl e"
      by (rule Promise_all_rejects [rotated])
    with t show "snd (fetch_task w i (gs ! i))
          = Inl (Error (js ''Failed to fetch video: '' @ number_toString (status res)
                        @ js '' '' @ statusText res))
        \<and> (\<exists>e. snd (materialize w gs) = Inl e)"
      by (simp add: snd_materialize fetch_failed_def)
  qed
  have c3: "snd (materialize w gs) = Inl e \<longrightarrow>
        (\<exists>j < length gs. snd (fetch_task w j (gs ! j)) = Inl e
           \<and> (\<forall>k < length gs. \<forall>e'. snd (fetch_task w k (gs ! k)) = Inl e'
                 \<longrightarrow> settle_time w j \<le> settle_time w k))"
  proof
    assume "snd (materialize w gs) = Inl e"
    then have "Promise_all (settle_time w) (map snd (fetch_tasks w 0 gs)) = Inl e"
      by (simp add: snd_materialize)
    from Promise_all_Inl [OF this] obtain j where
      j: "j < length gs" "map snd (fetch_tasks w 0 gs) ! j = Inl e"
      and least: "\<forall>k < length gs. \<forall>e'. map snd (fetch_tasks w 0 gs) ! k = Inl e'
                    \<longrightarrow> settle_time w j \<le> settle_time w k"
      by (auto simp: fetch_tasks_length)
    from j have "snd (fetch_task w j (gs ! j)) = Inl e" by (simp add: materialize_task(1))
    moreover from least
    have "\<forall>k < length gs. \<forall>e'. snd (fetch_task w k (gs ! k)) = Inl e'
                 \<longrightarrow> settle_time w j \<le> settle_time w k"
      by (simp add: materialize_task(1))
    ultimately show "\<exists>j < length gs. snd (fetch_task w j (gs ! j)) = Inl e
           \<and> (\<forall>k < length gs. \<forall>e'. snd (fetch_task w k (gs ! k)) = Inl e'
                 \<longrightarrow> settle_time w j \<le> settle_time w k)"
      using j(1) by blast
  qed
  have c4: "snd (materialize w gs) = Inr ps \<longrightarrow>
        length ps = length gs
        \<and> (\<forall>k < length gs.
              snd (fetch_task w k (gs ! k)) = Inr (ps ! k)
              \<and> (\<exists>v' url' res' b.
                    video (gs ! k) = Some v'
                  \<and> decodeURIComponent w (interpolate (uri v')) = Inr url'
                  \<and> fetch w k (url' @ js ''&key='' @ API_KEY w) = Inr res'
                  \<and> ok res' \<and> blob res' = Inr b
                  \<and> ps ! k
                      = (if comma \<in> set (readAsDataURL w b)
                         then Some (takeWhile (\<lambda>c. c \<noteq> comma)
                                      (tl (dropWhile (\<lambda>c. c \<noteq> comma) (readAsDataURL w b))))
                         else None)
                  \<and> (\<forall>header payload.
                        readAsDataURL w b = header @ comma # payload
                        \<and> comma \<notin> set header \<and> comma \<notin> set payload
                        \<longrightarrow> ps ! k = Some payload))
              \<and> (\<forall>p. ps ! k = Some p \<longrightarrow> comma \<notin> set p \<and> \<not> is_data_url p))"
  proof
    assume "snd (materialize w gs) = Inr ps"
    then have "Promise_all (settle_time w) (map snd (fetch_tasks w 0 gs)) = Inr ps"
      by (simp add: snd_materialize)
    from Promise_all_Inr [OF this] have len: "length ps = length gs"
      and each: "\<forall>k < length gs. map snd (fetch_tasks w 0 gs) ! k = Inr (ps ! k)"
      by (simp_all add: fetch_tasks_length)
    have "\<forall>k < length gs.
              snd (fetch_task w k (gs ! k)) = Inr (ps ! k)
              \<and> (\<exists>v' url' res' b.
                    video (gs ! k) = Some v'
                  \<and> decodeURIComponent w (interpolate (uri v')) = Inr url'
                  \<and> fetch w k (url' @ js ''&key='' @ API_KEY w) = Inr res'
                  \<and> ok res' \<and> blob res' = Inr b
                  \<and> ps ! k
                      = (if comma \<in> set (readAsDataURL w b)
                         then Some (takeWhile (\<lambda>c. c \<noteq> comma)
                                      (tl (dropWhile (\<lambda>c. c \<noteq> comma) (readAsDataURL w b))))
                         else None)
                  \<and> (\<forall>header payload.
                        readAsDataURL w b = header @ comma # payload
                        \<and> comma \<notin> set header \<and> comma \<notin> set payload
                        \<longrightarrow> ps ! k = Some payload))
              \<and> (\<forall>p. ps ! k = Some p \<longrightarrow> comma \<notin> set p \<and> \<not> is_data_url p)"
    proof (intro allI impI)
      fix k assume k: "k < length gs"
      with each have t: "snd (fetch_task w k (gs ! k)) = Inr (ps ! k)"
        by (simp add: materialize_task(1))
      from fetch_task_fulfilled [OF t] obtain v' url' res' b where
        src: "video (gs ! k) = Some v'"
          "decodeURIComponent w (interpolate (uri v')) = Inr url'"
          "fetch w k (url' @ js ''&key='' @ API_KEY w) = Inr res'"
          "ok res'" "blob res' = Inr b"
        and p: "ps ! k = bloblToBase64 w b"
        by blast
      from p have seg: "ps ! k
                      = (if comma \<in> set (readAsDataURL w b)
                         then Some (takeWhile (\<lambda>c. c \<noteq> comma)
                                      (tl (dropWhile (\<lambda>c. c \<noteq> comma) (readAsDataURL w b))))
                         else None)"
        unfolding bloblToBase64_def by (simp only: split_js_second)
      have plain: "\<forall>header payload.
                        readAsDataURL w b = header @ comma # payload
                        \<and> comma \<notin> set header \<and> comma \<notin> set payload
                        \<longrightarrow> ps ! k = Some payload"
      proof (intro allI impI)
        fix header payload
        assume "readAsDataURL w b = header @ comma # payload
                        \<and> comma \<notin> set header \<and> comma \<notin> set payload"
        then have "comma \<in> set (readAsDataURL w b)"
          and "takeWhile (\<lambda>c. c \<noteq> comma)
                 (tl (dropWhile (\<lambda>c. c \<noteq> comma) (readAsDataURL w b))) = payload"
          using second_segment_plain [of "readAsDataURL w b" header comma payload] by simp_all
        with seg show "ps ! k = Some payload" by simp
      qed
      have bare: "\<forall>p. ps ! k = Some p \<longrightarrow> comma \<notin> set p \<and> \<not> is_data_url p"
      proof (intro allI impI)
        fix p assume "ps ! k = Some p"
        with t have "snd (fetch_task w k (gs ! k)) = Inr (Some p)" by simp
        then have "comma \<notin> set p" by (rule fetch_task_payload)
        then show "comma \<notin> set p \<and> \<not> is_data_url p" by (simp add: is_data_url_def)
      qed
      from t src seg plain bare
      show "snd (fetch_task w k (gs ! k)) = Inr (ps ! k)
              \<and> (\<exists>v' url' res' b.
                    video (gs ! k) = Some v'
                  \<and> decodeURIComponent w (interpolate (uri v')) = Inr url'
                  \<and> fetch w k (url' @ js ''&key='' @ API_KEY w) = Inr res'
                  \<and> ok res' \<and> blob res' = Inr b
                  \<and> ps ! k
                      = (if comma \<in> set (readAsDataURL w b)
                         then Some (takeWhile (\<lambda>c. c \<noteq> comma)
                                      (tl (dropWhile (\<lambda>c. c \<noteq> comma) (readAsDataURL w b))))
                         else None)
                  \<and> (\<forall>header payload.
                        readAsDataURL w b = header @ comma # payload
                        \<and> comma \<notin> set header \<and> comma \<notin> set payload
                        \<longrightarrow> ps ! k = Some payload))
              \<and> (\<forall>p. ps ! k = Some p \<longrightarrow> comma \<notin> set p \<and> \<not> is_data_url p)"
        by blast
    qed
    with len show "length ps = length gs
        \<and> (\<forall>k < length gs.
              snd (fetch_task w k (gs ! k)) = Inr (ps ! k)
              \<and> (\<exists>v' url' res' b.
                    video (gs ! k) = Some v'
                  \<and> decodeURIComponent w (interpolate (uri v')) = Inr url'
                  \<and> fetch w k (url' @ js ''&key='' @ API_KEY w) = Inr res'
                  \<and> ok res' \<and> blob res' = Inr b
                  \<and> ps ! k
                      = (if comma \<in> set (readAsDataURL w b)
                         then Some (takeWhile (\<lambda>c. c \<noteq> comma)
                                      (tl (dropWhile (\<lambda>c. c \<noteq> comma) (readAsDataURL w b))))
                         else None)
                  \<and> (\<forall>header payload.
                        readAsDataURL w b = header @ comma # payload
                        \<and> comma \<notin> set header \<and> comma \<notin> set payload
                        \<longrightarrow> ps ! k = Some payload))
              \<and> (\<forall>p. ps ! k = Some p \<longrightarrow> comma \<notin> set p \<and> \<not> is_data_url p))" ..
  qed
  from c1 c2 c3 c4 data_url_tagged data_url_literal show ?thesis by blast
qed

lemma materialize_second_forbidden:
  "materialize (second_forbidden_world gs) [asset u, asset u']
     = ([Fetch (u @ js ''&key=K''), Fetch (u' @ js ''&key=K'')],
        Inl (Error (js ''Failed to fetch video: 403 Forbidden'')))"
proof -
  have "\<not> ok forbidden_response" by (simp add: forbidden_response_def)
  then show ?thesis
    by (simp add: materialize_def second_forbidden_world_def fetch_task_def asset_def
        interpolate_def test_sel js_append fetch_failed_forbidden ok_response_def
        bloblToBase64_test Promise_all_def)
qed

lemma codec_sel:
  "readAsDataURL (codec_world gs) b = js ''data:video/mp4;codecs=avc1,mp4a;base64,AAAA''"
  "API_KEY (codec_world gs) = js ''K''"
  "decodeURIComponent (codec_world gs) u = Inr u"
  "fetch (codec_world gs) i url = Inr (ok_response i)"
  "settle_time (codec_world gs) = (\<lambda>i. i)"
  by (simp_all add: codec_world_def demo_world_def test_world_def)

lemma materialize_codec:
  "materialize (codec_world gs) [asset u]
     = ([Fetch (u @ js ''&key=K'')], Inr [Some (js ''mp4a;base64'')])"
  by (simp add: materialize_def fetch_task_def asset_def interpolate_def codec_sel js_append
      ok_response_def codec_payload Promise_all_def)

theorem materialize_fetches_every_asset_witness:
  "Fetch (dog_uri @ js ''&key=K'')
     \<in> set (fst (materialize (second_forbidden_world []) [asset cat_uri, asset dog_uri]))
   \<and> fetch (second_forbidden_world []) 1 (dog_uri @ js ''&key=K'') = Inr forbidden_response
   \<and> \<not> ok forbidden_response
   \<and> snd (fetch_task (second_forbidden_world []) 1 (asset dog_uri))
       = Inl (Error (js ''Failed to fetch video: 403 Forbidden''))
   \<and> snd (materialize (second_forbidden_world []) [asset cat_uri, asset dog_uri])
       = Inl (Error (js ''Failed to fetch video: 403 Forbidden''))
   \<and> snd (materialize (demo_world (js ''uuid-1'') []) [asset cat_uri, asset dog_uri])
       = Inr [Some (js ''AA==''), Some (js ''AQ=='')]
   \<and> comma \<notin> set (js ''AQ=='') \<and> \<not> is_data_url (js ''AQ=='')
   \<and> is_data_url (js ''data:video/mp4;base64,AA=='')
   \<and> snd (materialize (codec_world []) [asset cat_uri]) = Inr [Some (js ''mp4a;base64'')]
   \<and> Some (js ''mp4a;base64'')
       = Some (takeWhile (\<lambda>c. c \<noteq> comma)
                 (tl (dropWhile (\<lambda>c. c \<noteq> comma)
                        (js ''data:video/mp4;codecs=avc1,mp4a;base64,AAAA''))))"
proof -
  let ?w = "second_forbidden_world []"
  let ?gs = "[asset cat_uri, asset dog_uri]"
  let ?v = "\<lparr>uri = Some dog_uri\<rparr>"
  have key: "API_KEY ?w = js ''K''"
    by (simp add: second_forbidden_world_def test_sel)
  have target: "dog_uri @ js ''&key='' @ API_KEY ?w = dog_uri @ js ''&key=K''"
    by (simp add: key js_append)
  have h1: "1 < length ?gs \<and> video (?gs ! 1) = Some ?v
              \<and> decodeURIComponent ?w (interpolate (uri ?v)) = Inr dog_uri"
    by (simp add: asset_def interpolate_def second_forbidden_world_def test_sel)
  have h2: "fetch ?w 1 (dog_uri @ js ''&key=K'') = Inr forbidden_response"
    by (simp add: second_forbidden_world_def test_sel)
  have h3: "\<not> ok forbidden_response" by (simp add: forbidden_response_def)
  have h4: "snd (materialize ?w ?gs) = Inl (Error (js ''Failed to fetch video: 403 Forbidden''))"
    by (simp add: materialize_second_forbidden)
  have h5: "snd (materialize (demo_world (js ''uuid-1'') []) ?gs)
              = Inr [Some (js ''AA==''), Some (js ''AQ=='')]"
    by (simp add: demo_world_def materialize_ok2)
  have h6: "snd (materialize (codec_world []) [asset cat_uri]) = Inr [Some (js ''mp4a;base64'')]"
    by (simp add: materialize_codec)
  note inst = materialize_fetches_every_asset [where w = ?w and gs = ?gs and i = 1 and v = ?v
      and url = dog_uri and res = forbidden_response
      and e = "Error (js ''Failed to fetch video: 403 Forbidden'')"
      and videoSrc = "Some (js ''AA=='')", unfolded target]
  from inst h1 have a: "Fetch (dog_uri @ js ''&key=K'') \<in> set (fst (materialize ?w ?gs))"
    by blast
  from inst h1 h2 h3 have "snd (fetch_task ?w 1 (?gs ! 1))
          = Inl (Error (js ''Failed to fetch video: '' @ number_toString (status forbidden_response)
                        @ js '' '' @ statusText forbidden_response))"
    by blast
  then have b: "snd (fetch_task ?w 1 (asset dog_uri))
       = Inl (Error (js ''Failed to fetch video: 403 Forbidden''))"
    using fetch_failed_forbidden by (simp add: fetch_failed_def)
  note inst2 = materialize_fetches_every_asset [where w = "demo_world (js ''uuid-1'') []"
      and gs = ?gs and ps = "[Some (js ''AA==''), Some (js ''AQ=='')]"
      and videoSrc = "Some (js ''AA=='')"]
  from inst2 h5 have "\<forall>k < length ?gs. \<forall>p. [Some (js ''AA==''), Some (js ''AQ=='')] ! k = Some p
          \<longrightarrow> comma \<notin> set p \<and> \<not> is_data_url p"
    by blast
  then have "\<forall>p. [Some (js ''AA==''), Some (js ''AQ=='')] ! Suc 0 = Some p
          \<longrightarrow> comma \<notin> set p \<and> \<not> is_data_url p"
    by (rule allE [where x = "Suc 0"]) simp
  then have c: "comma \<notin> set (js ''AQ=='') \<and> \<not> is_data_url (js ''AQ=='')" by simp
  from inst2 have "is_data_url (data_url (Some (js ''AA=='')))" by blast
  then have d: "is_data_url (js ''data:video/mp4;base64,AA=='')"
    by (simp add: data_url_literal interpolate_def js_append)
  note inst3 = materialize_fetches_every_asset [where w = "codec_world []"
      and gs = "[asset cat_uri]" and ps = "[Some (js ''mp4a;base64'')]"]
  from inst3 h6 have "\<forall>k < length [asset cat_uri]. \<exists>b.
      [Some (js ''mp4a;base64'')] ! k
        = (if comma \<in> set (readAsDataURL (codec_world []) b)
           then Some (takeWhile (\<lambda>c. c \<noteq> comma)
                        (tl (dropWhile (\<lambda>c. c \<noteq> comma) (readAsDataURL (codec_world []) b))))
           else None)"
    by blast
  then have "\<exists>b. [Some (js ''mp4a;base64'')] ! 0
        = (if comma \<in> set (readAsDataURL (codec_world []) b)
           then Some (takeWhile (\<lambda>c. c \<noteq> comma)
                        (tl (dropWhile (\<lambda>c. c \<noteq> comma) (readAsDataURL (codec_world []) b))))
           else None)"
    by (rule allE [where x = 0]) simp
  moreover have "comma \<in> set (js ''data:video/mp4;codecs=avc1,mp4a;base64,AAAA'')"
    by (simp add: js_def comma_def)
  ultimately have f: "Some (js ''mp4a;base64'')
       = Some (takeWhile (\<lambda>c. c \<noteq> comma)
                 (tl (dropWhile (\<lambda>c. c \<noteq> comma)
                        (js ''data:video/mp4;codecs=avc1,mp4a;base64,AAAA''))))"
    by (simp only: codec_sel(1) nth_Cons_0 if_True) blast
  from a h2 h3 b h4 h5 c d h6 f show ?thesis by blast
qed

end
